theory Spec2Isabelle
  imports Complex_Main "HOL-Library.AList" "HOL-Library.Log_Nat"
begin

section \<open>Conventions of the embedding\<close>

text \<open>
  The development embeds the computational parts of the medicine tracker backend
  (\<^verbatim>\<open>medtracker-be/routes\<close>): the weight conversion and trend analytics, the
  medicine validation, the next-dose calculation, the creation of intake logs with its
  duplicate check, and the adherence analytics.

  \<^item> A JavaScript number that holds a measurement or a ratio is the \<^typ>\<open>real\<close> that
    the double denotes. In the handlers every multiplication, division, addition and
    subtraction of such numbers is followed by the rounding \<open>fl\<close> to the nearest
    double, and a decimal of the store or of the source text is read through \<open>fl\<close>.
    The function \<open>convertWeight\<close> is given first over exact reals, as the conversion
    rule reads, and then as the handlers evaluate it (\<open>convertWeight64\<close>). Counts and
    database \<^verbatim>\<open>INTEGER\<close> columns are \<^typ>\<open>nat\<close> or \<^typ>\<open>int\<close>; integers stay far
    below \<open>2^53\<close>, where the arithmetic of doubles on them is exact.
  \<^item> A \<^verbatim>\<open>Date\<close> and a \<^verbatim>\<open>TIMESTAMPTZ\<close> column are the number of
    milliseconds since the epoch, an \<^typ>\<open>int\<close> (what \<^verbatim>\<open>getTime()\<close> returns).
    Instants lie in the range that a \<^verbatim>\<open>Date\<close> represents, so that no arithmetic
    on them yields an invalid date. The clock (\<^verbatim>\<open>new Date()\<close>,
    \<^verbatim>\<open>Date.now()\<close>) is a parameter \<open>now\<close> of every handler that reads it, read
    once for a request.
  \<^item> A JavaScript string is a \<^typ>\<open>string\<close>; each \<^typ>\<open>char\<close> is one code unit
    (of the Latin-1 range), so \<^const>\<open>length\<close> is \<^verbatim>\<open>.length\<close>.
  \<^item> A value that may be \<^verbatim>\<open>undefined\<close> or \<^verbatim>\<open>null\<close> is an
    \<^typ>\<open>'a option\<close>.
  \<^item> The external store is a list of rows; a query of the Supabase query builder is
    the corresponding filter, and a failure of the store is a flag given to the handler.
\<close>

section \<open>Strings\<close>

text \<open>\<^verbatim>\<open>String.prototype.toLowerCase\<close> on code units below 256: the letters A to Z
  and the accented capitals (all of 192 to 222 except the multiplication sign 215) move
  up by 32.\<close>

definition toLowerChar :: "char \<Rightarrow> char" where
  "toLowerChar c =
     (let n = (of_char c :: nat)
      in if (65 \<le> n \<and> n \<le> 90) \<or> (192 \<le> n \<and> n \<le> 222 \<and> n \<noteq> 215)
         then char_of (n + 32) else c)"

definition toLowerCase :: "string \<Rightarrow> string" where
  "toLowerCase s = map toLowerChar s"

text \<open>\<^verbatim>\<open>String.prototype.trim\<close> removes white space and line terminators from both
  ends; below 256 these are the code units 9 to 13, 32 and 160.\<close>

definition isWhiteSpace :: "char \<Rightarrow> bool" where
  "isWhiteSpace c \<longleftrightarrow> (of_char c :: nat) \<in> {9, 10, 11, 12, 13, 32, 160}"

definition trim :: "string \<Rightarrow> string" where
  "trim s = rev (dropWhile isWhiteSpace (rev (dropWhile isWhiteSpace s)))"

text \<open>The decimal numeral that a template literal prints for a non-negative integer.\<close>

definition digitChar :: "nat \<Rightarrow> char" where
  "digitChar d = char_of (48 + d)"

fun string_of_nat :: "nat \<Rightarrow> string" where
  "string_of_nat n =
     (if n < 10 then [digitChar n] else string_of_nat (n div 10) @ [digitChar (n mod 10)])"

declare string_of_nat.simps [simp del]

section \<open>Numbers\<close>

text \<open>The rounding of a real to the nearest IEEE 754 binary64 number, ties to the even
  significand. \<open>floorLog2 y\<close> is the binary exponent of a positive \<open>y\<close>; the
  significand has 53 bits, and below \<open>2^-1022\<close> the spacing stays \<open>2^-1074\<close>
  (subnormal numbers). No computation of the handlers leaves the range of the finite
  doubles, so the overflow to infinity is not part of the function.\<close>

definition roundEven :: "real \<Rightarrow> int" where
  "roundEven q =
     (let f = \<lfloor>q\<rfloor>; r = q - real_of_int f
      in if r < 1 / 2 then f else if r > 1 / 2 then f + 1
         else if even f then f else f + 1)"

definition floorLog2 :: "real \<Rightarrow> int" where
  "floorLog2 y = (if 1 \<le> y then bitlen \<lfloor>y\<rfloor> - 1 else - bitlen (\<lceil>1 / y\<rceil> - 1))"

definition fl :: "real \<Rightarrow> real" where
  "fl x =
     (if x = 0 then 0
      else let e = max (floorLog2 \<bar>x\<bar> - 52) (- 1074);
               m = roundEven (\<bar>x\<bar> / 2 powi e)
           in sgn x * real_of_int m * 2 powi e)"

section \<open>Weight conversion (routes/weights.js)\<close>

text \<open>\<^verbatim>\<open>convertWeight(weight, fromUnit, toUnit)\<close>. The first chain of tests computes
  \<^verbatim>\<open>weightInKg\<close> or returns the input at once for an unknown source unit
  (\<open>None\<close> below); the second chain converts the kilograms to the target unit and
  returns the kilograms for an unknown target unit.\<close>

definition weightInKg :: "real \<Rightarrow> string \<Rightarrow> real option" where
  "weightInKg weight normalizedFromUnit =
     (if normalizedFromUnit = ''kg'' then Some weight
      else if normalizedFromUnit = ''lbs'' \<or> normalizedFromUnit = ''pounds''
        then Some (weight * 0.453592)
      else None)"

definition convertWeight :: "real \<Rightarrow> string \<Rightarrow> string \<Rightarrow> real" where
  "convertWeight weight fromUnit toUnit =
     (let normalizedFromUnit = toLowerCase fromUnit;
          normalizedToUnit = toLowerCase toUnit
      in case weightInKg weight normalizedFromUnit of
           None \<Rightarrow> weight
         | Some kg \<Rightarrow>
             (if normalizedToUnit = ''kg'' then kg
              else if normalizedToUnit = ''lbs'' \<or> normalizedToUnit = ''pounds''
                then kg * 2.20462
              else kg))"

definition knownUnit :: "string \<Rightarrow> bool" where
  "knownUnit u \<longleftrightarrow> toLowerCase u \<in> {''kg'', ''lbs'', ''pounds''}"

section \<open>Weight trends (routes/weights.js, GET /api/weights/analytics/trends)\<close>

text \<open>\<^verbatim>\<open>convertWeight\<close> as the handlers evaluate it: the two constants are the doubles
  nearest to the decimals of the source text, and each product is rounded.\<close>

definition weightInKg64 :: "real \<Rightarrow> string \<Rightarrow> real option" where
  "weightInKg64 weight normalizedFromUnit =
     (if normalizedFromUnit = ''kg'' then Some weight
      else if normalizedFromUnit = ''lbs'' \<or> normalizedFromUnit = ''pounds''
        then Some (fl (weight * fl 0.453592))
      else None)"

definition convertWeight64 :: "real \<Rightarrow> string \<Rightarrow> string \<Rightarrow> real" where
  "convertWeight64 weight fromUnit toUnit =
     (let normalizedFromUnit = toLowerCase fromUnit;
          normalizedToUnit = toLowerCase toUnit
      in case weightInKg64 weight normalizedFromUnit of
           None \<Rightarrow> weight
         | Some kg \<Rightarrow>
             (if normalizedToUnit = ''kg'' then kg
              else if normalizedToUnit = ''lbs'' \<or> normalizedToUnit = ''pounds''
                then fl (kg * fl 2.20462)
              else kg))"

text \<open>A row of \<^verbatim>\<open>weight_logs\<close> as the trends handler reads it: the stored decimal, the
  unit it was entered in and the time of the measurement. The handler receives the
  decimal as a number, \<open>fl (weight w)\<close>.\<close>

record weight_log =
  weight :: real
  unit_col :: string
  measured_at :: int

text \<open>\<^verbatim>\<open>parseFloat(x.toFixed(2))\<close> as the answer prints it, a decimal with at most two
  places: the sign is split off, the exact value of the magnitude is rounded to the
  nearest multiple of 1/100 and a tie takes the larger one.\<close>

definition toFixed2 :: "real \<Rightarrow> real" where
  "toFixed2 x =
     (if x < 0 then - (real_of_int \<lfloor>(- x) * 100 + 1 / 2\<rfloor> / 100)
      else real_of_int \<lfloor>x * 100 + 1 / 2\<rfloor> / 100)"

text \<open>The \<^verbatim>\<open>analytics\<close> object of the answer for a non-empty series.\<close>

record trend_analytics =
  totalEntries :: nat
  firstWeight :: real
  lastWeight :: real
  weightChange :: real
  averageWeight :: real
  minWeight :: real
  maxWeight :: real
  trend :: string
  unit_out :: string

text \<open>\<open>NoData\<close> is the fixed answer for an empty result:
  \<^verbatim>\<open>{ totalEntries: 0, weightChange: 0, averageWeight: 0, trend: 'no_data' }\<close> with an
  empty timeline.\<close>

datatype trend_report = NoData | Trends trend_analytics

definition weightValues :: "weight_log list \<Rightarrow> string \<Rightarrow> real list" where
  "weightValues weights u =
     map (\<lambda>w. convertWeight64 (fl (weight w)) (unit_col w) u) weights"

text \<open>The change between the first and the last converted value as the handler computes
  it, a double, before any rounding to decimals (the local constant
  \<^verbatim>\<open>weightChange\<close>).\<close>

definition rawWeightChange :: "weight_log list \<Rightarrow> string \<Rightarrow> real" where
  "rawWeightChange weights u =
     (let vs = weightValues weights u in fl (last vs - hd vs))"

text \<open>\<^verbatim>\<open>weightValues.reduce((sum, w) => sum + w, 0)\<close>\<close>

definition sumWeights :: "real list \<Rightarrow> real" where
  "sumWeights vs = foldl (\<lambda>sum w. fl (sum + w)) 0 vs"

definition trendOf :: "real \<Rightarrow> string" where
  "trendOf change =
     (if \<bar>change\<bar> > 0.5 then (if change > 0 then ''increasing'' else ''decreasing'')
      else ''stable'')"

definition trendAnalytics :: "weight_log list \<Rightarrow> string \<Rightarrow> trend_analytics" where
  "trendAnalytics weights u =
     (let vs = weightValues weights u;
          first = hd vs;
          lst = last vs;
          change = fl (lst - first);
          average = fl (sumWeights vs / real (length vs))
      in \<lparr> totalEntries = length weights,
           firstWeight = toFixed2 first,
           lastWeight = toFixed2 lst,
           weightChange = toFixed2 change,
           averageWeight = toFixed2 average,
           minWeight = toFixed2 (Min (set vs)),
           maxWeight = toFixed2 (Max (set vs)),
           trend = trendOf change,
           unit_out = toLowerCase u \<rparr>)"

text \<open>The handler answers \<open>NoData\<close> when the query returns no row
  (\<^verbatim>\<open>!weights || weights.length === 0\<close>) and the analytics otherwise, where the first
  and the last element of the series exist.\<close>

definition trends :: "weight_log list \<Rightarrow> string \<Rightarrow> trend_report" where
  "trends weights u =
     (if weights = [] then NoData else Trends (trendAnalytics weights u))"

section \<open>Medicine validation (validateMedicine, final version)\<close>

text \<open>\<^verbatim>\<open>validateMedicine(medicineData)\<close> destructures its argument into the eight
  fields below and pushes one message for each violated rule; the model returns the
  \<^verbatim>\<open>errors\<close> array (\<^verbatim>\<open>isValid\<close> is \<open>errors = []\<close>). A field that is
  \<^verbatim>\<open>undefined\<close> or \<^verbatim>\<open>null\<close> is \<open>None\<close>; \<open>mealTiming\<close> is \<open>None\<close> also
  when it is not an array.\<close>

definition validName :: "string option \<Rightarrow> string list" where
  "validName name =
     (case name of
        None \<Rightarrow> [''Medicine name is required'']
      | Some n \<Rightarrow>
          if length (trim n) = 0 then [''Medicine name is required'']
          else if length (trim n) < 2
            then [''Medicine name must be at least 2 characters long'']
          else if length (trim n) > 100
            then [''Medicine name must be less than 100 characters'']
          else [])"

definition validDose :: "string option \<Rightarrow> string list" where
  "validDose dose =
     (case dose of
        None \<Rightarrow> [''Dose information is required'']
      | Some d \<Rightarrow>
          if length (trim d) = 0 then [''Dose information is required'']
          else if length (trim d) > 50 then [''Dose must be less than 50 characters'']
          else [])"

definition validScheduleTypes :: "string list" where
  "validScheduleTypes = [''interval'', ''meal_based'']"

definition validScheduleType :: "string option \<Rightarrow> string list" where
  "validScheduleType scheduleType =
     (case scheduleType of
        None \<Rightarrow> [''Schedule type must be one of: interval, meal_based'']
      | Some t \<Rightarrow>
          if t = [] \<or> t \<notin> set validScheduleTypes
          then [''Schedule type must be one of: interval, meal_based'']
          else [])"

text \<open>\<^verbatim>\<open>!intervalMinutes\<close> holds for an absent value and for 0.\<close>

definition validInterval :: "int option \<Rightarrow> int option \<Rightarrow> string list" where
  "validInterval intervalMinutes intervalDays =
     (case intervalMinutes of
        None \<Rightarrow> [''Interval minutes must be a positive number for interval-based schedules'']
      | Some m \<Rightarrow>
          if m = 0 \<or> m \<le> 0
            then [''Interval minutes must be a positive number for interval-based schedules'']
          else if m > 43200
            then [''Interval minutes cannot exceed 30 days (43200 minutes)'']
          else [])
     @ (case intervalDays of
          None \<Rightarrow> []
        | Some d \<Rightarrow>
            if d \<le> 0 then [''Interval days must be a positive number if specified'']
            else [])"

definition validMealTimings :: "string list" where
  "validMealTimings = [''before_meal'', ''after_meal'', ''with_meal'']"

definition invalidTimingMessage :: "nat \<Rightarrow> string" where
  "invalidTimingMessage index =
     ''Invalid meal timing at position '' @ string_of_nat (index + 1)
       @ ''. Must be one of: before_meal, after_meal, with_meal''"

definition validMealTiming :: "string list option \<Rightarrow> string list" where
  "validMealTiming mealTiming =
     (case mealTiming of
        None \<Rightarrow> [''Meal timing is required for meal-based schedules'']
      | Some ts \<Rightarrow>
          if length ts = 0 then [''Meal timing is required for meal-based schedules'']
          else
            concat (map (\<lambda>(index, timing).
                       if timing \<notin> set validMealTimings then [invalidTimingMessage index]
                       else [])
                     (enumerate 0 ts))
            @ (if length ts > 5 then [''Maximum 5 meal timings allowed''] else []))"

definition validText500 :: "string \<Rightarrow> string option \<Rightarrow> string list" where
  "validText500 message field =
     (case field of
        None \<Rightarrow> []
      | Some t \<Rightarrow> if length t > 500 then [message] else [])"

definition validateMedicine ::
  "string option \<Rightarrow> string option \<Rightarrow> string option \<Rightarrow> int option \<Rightarrow> int option \<Rightarrow>
   string list option \<Rightarrow> string option \<Rightarrow> string option \<Rightarrow> string list" where
  "validateMedicine name dose scheduleType intervalMinutes intervalDays mealTiming
       instructions notes =
     validName name
     @ validDose dose
     @ validScheduleType scheduleType
     @ (if scheduleType = Some ''interval'' then validInterval intervalMinutes intervalDays
        else [])
     @ (if scheduleType = Some ''meal_based'' then validMealTiming mealTiming else [])
     @ validText500 ''Instructions must be less than 500 characters'' instructions
     @ validText500 ''Notes must be less than 500 characters'' notes"

text \<open>The three messages of the checks on the name.\<close>

definition nameMessages :: "string set" where
  "nameMessages =
     {''Medicine name is required'',
      ''Medicine name must be at least 2 characters long'',
      ''Medicine name must be less than 100 characters''}"

section \<open>Rows of the store\<close>

text \<open>A row of \<^verbatim>\<open>medicines\<close> (final schema). \<^verbatim>\<open>interval_minutes\<close>,
  \<^verbatim>\<open>interval_days\<close> and \<^verbatim>\<open>meal_timing\<close> are nullable columns. The first version
  of the log routes reads the column \<^verbatim>\<open>dosage\<close> where the final schema has
  \<^verbatim>\<open>dose\<close>; both are the field \<open>dose_col\<close>.\<close>

record medicine =
  med_id :: string
  med_user_id :: string
  name_col :: string
  dose_col :: string
  schedule_type :: string
  interval_minutes :: "int option"
  interval_days :: "int option"
  meal_timing :: "string list option"

text \<open>A row of \<^verbatim>\<open>medicine_logs\<close>. \<^verbatim>\<open>scheduled_time\<close> and an explicit
  \<^verbatim>\<open>created_at\<close> are written by the first version of the route only.\<close>

record medicine_log =
  user_id :: string
  medicine_id :: string
  taken_at :: int
  dosage_taken :: "string option"
  notes_col :: "string option"
  scheduled_time :: "string option"
  created_at :: "int option"

section \<open>Next dose (GET /api/medicines/:id/next-dose)\<close>

text \<open>The object \<^verbatim>\<open>nextDoseInfo\<close>: \<open>EmptyInfo\<close> is the initial \<^verbatim>\<open>{}\<close>, the other
  two constructors are the objects of \<^verbatim>\<open>type: 'interval'\<close> and
  \<^verbatim>\<open>type: 'meal_based'\<close>. A \<^verbatim>\<open>null\<close> \<^verbatim>\<open>lastDoseAt\<close> is \<open>None\<close>.\<close>

datatype next_dose_info =
    EmptyInfo
  | IntervalInfo (nextDoseAt: int) (nd_intervalMinutes: int) (nd_intervalDays: "int option")
      (lastDoseAt: "int option") (isOverdue: bool)
  | MealBasedInfo (nd_mealTiming: "string list option") (nd_instructions: string)
      (lastDoseAt: "int option")

text \<open>\<^verbatim>\<open>medicine.interval_minutes\<close> used as a condition: present and not 0.\<close>

definition populated :: "int option \<Rightarrow> bool" where
  "populated v \<longleftrightarrow> (case v of None \<Rightarrow> False | Some n \<Rightarrow> n \<noteq> 0)"

text \<open>The computation of \<^verbatim>\<open>nextDoseInfo\<close> from the medicine row, the \<^verbatim>\<open>taken_at\<close>
  of the most recent log (\<open>None\<close> when the query returned no row) and the clock.\<close>

definition nextDose :: "medicine \<Rightarrow> int option \<Rightarrow> int \<Rightarrow> next_dose_info" where
  "nextDose medicine lastLog now =
     (if schedule_type medicine = ''interval'' \<and> populated (interval_minutes medicine) then
        (case lastLog of
           Some lastDose \<Rightarrow>
             (let nextDose = lastDose + the (interval_minutes medicine) * 60 * 1000
              in IntervalInfo nextDose (the (interval_minutes medicine))
                   (interval_days medicine) (Some lastDose) (nextDose < now))
         | None \<Rightarrow>
             IntervalInfo now (the (interval_minutes medicine)) (interval_days medicine)
               None False)
      else if schedule_type medicine = ''meal_based'' then
        MealBasedInfo (meal_timing medicine) ''Take as scheduled with meals'' lastLog
      else EmptyInfo)"

text \<open>The handler: 404 when the medicine query fails or returns nothing (\<open>None\<close>),
  otherwise 200 with the medicine and \<^verbatim>\<open>nextDose: nextDoseInfo\<close>. A failure of the
  log query is only written to the console and leaves \<^verbatim>\<open>lastLog\<close> empty.\<close>

datatype next_dose_response =
    MedicineNotFound404
  | NextDoseOk200 medicine next_dose_info

definition next_dose_route :: "medicine option \<Rightarrow> int option \<Rightarrow> int \<Rightarrow> next_dose_response" where
  "next_dose_route medicineResult lastLog now =
     (case medicineResult of
        None \<Rightarrow> MedicineNotFound404
      | Some medicine \<Rightarrow> NextDoseOk200 medicine (nextDose medicine lastLog now))"

section \<open>Creating an intake log (POST /api/medicine-logs)\<close>

text \<open>The \<^verbatim>\<open>takenAt\<close> string of a request, as \<^verbatim>\<open>new Date(takenAt)\<close> reads it: an
  instant, or an invalid date. A missing or empty \<^verbatim>\<open>takenAt\<close> is \<open>None\<close> where the
  field is optional.\<close>

datatype time_string = Unparseable | Instant int

text \<open>\<^verbatim>\<open>validateMedicineLog\<close> of the final version (unnamed/part_010): the timestamp is
  checked only when present.\<close>

definition validTakenAt :: "int \<Rightarrow> time_string \<Rightarrow> string list" where
  "validTakenAt now takenAt =
     (case takenAt of
        Unparseable \<Rightarrow> [''Invalid timestamp format'']
      | Instant takenDate \<Rightarrow>
          if takenDate > now then [''Cannot log medicine for future dates'']
          else if takenDate < now - 365 * 24 * 60 * 60 * 1000
            then [''Cannot log medicine older than 1 year'']
          else [])"

definition validLogText :: "string option \<Rightarrow> string option \<Rightarrow> string list" where
  "validLogText dosageTaken notes =
     (case dosageTaken of
        None \<Rightarrow> []
      | Some d \<Rightarrow>
          if length d > 100 then [''Dosage taken must be less than 100 characters''] else [])
     @ (case notes of
          None \<Rightarrow> []
        | Some n \<Rightarrow> if length n > 500 then [''Notes must be less than 500 characters''] else [])"

definition validateMedicineLog ::
  "int \<Rightarrow> string option \<Rightarrow> time_string option \<Rightarrow> string option \<Rightarrow> string option \<Rightarrow> string list" where
  "validateMedicineLog now medicineId takenAt dosageTaken notes =
     (if medicineId = None \<or> medicineId = Some [] then [''Medicine ID is required''] else [])
     @ (case takenAt of None \<Rightarrow> [] | Some t \<Rightarrow> validTakenAt now t)
     @ validLogText dosageTaken notes"

text \<open>\<^verbatim>\<open>validateMedicineLog\<close> of routes/medicineLogs.js: the timestamp is required.\<close>

definition validateMedicineLog_v1 ::
  "int \<Rightarrow> string option \<Rightarrow> time_string option \<Rightarrow> string option \<Rightarrow> string option \<Rightarrow> string list" where
  "validateMedicineLog_v1 now medicineId takenAt dosageTaken notes =
     (if medicineId = None \<or> medicineId = Some [] then [''Medicine ID is required''] else [])
     @ (case takenAt of
          None \<Rightarrow> [''Taken timestamp is required'']
        | Some t \<Rightarrow> validTakenAt now t)
     @ validLogText dosageTaken notes"

text \<open>The body of the request: \<^verbatim>\<open>medicineId\<close>, \<^verbatim>\<open>takenAt\<close>, \<^verbatim>\<open>dosageTaken\<close>,
  \<^verbatim>\<open>notes\<close> and (first version) \<^verbatim>\<open>scheduledTime\<close>.\<close>

record log_request =
  req_medicineId :: "string option"
  req_takenAt :: "time_string option"
  req_dosageTaken :: "string option"
  req_notes :: "string option"
  req_scheduledTime :: "string option"

text \<open>The two tables the handler touches, and the failures the store may report to it:
  for the medicine query, for the duplicate query, and for the insert (with the error
  code).\<close>

record store =
  medicines :: "medicine list"
  medicine_logs :: "medicine_log list"

record db_faults =
  medicineError :: bool
  duplicateError :: bool
  insertError :: "string option"

datatype create_log_response =
    ValidationError400 "string list"
  | LogMedicineNotFound404
  | DuplicateEntry409 "nat option"
  | ConstraintViolation400
  | DatabaseError500
  | InternalServerError500
  | Created201 medicine_log

text \<open>\<^verbatim>\<open>.from('medicines').select(...).eq('id', medicineId).eq('user_id', userId).single()\<close>\<close>

definition selectMedicine :: "store \<Rightarrow> string \<Rightarrow> string \<Rightarrow> medicine option" where
  "selectMedicine db mid userId =
     find (\<lambda>m. med_id m = mid \<and> med_user_id m = userId) (medicines db)"

text \<open>The duplicate query: the logs of the user for the medicine whose \<^verbatim>\<open>taken_at\<close> lies
  between five minutes before and five minutes after the requested time
  (\<^verbatim>\<open>.gte\<close> and \<^verbatim>\<open>.lte\<close>, both bounds included).\<close>

definition duplicateCheck :: "store \<Rightarrow> string \<Rightarrow> string \<Rightarrow> int \<Rightarrow> medicine_log list" where
  "duplicateCheck db userId mid takenDate =
     (let fiveMinutesBefore = takenDate - 5 * 60 * 1000;
          fiveMinutesAfter = takenDate + 5 * 60 * 1000
      in filter (\<lambda>l. user_id l = userId \<and> medicine_id l = mid
                      \<and> fiveMinutesBefore \<le> taken_at l \<and> taken_at l \<le> fiveMinutesAfter)
           (medicine_logs db))"

text \<open>\<^verbatim>\<open>s?.trim() || null\<close>\<close>

definition trimOrNull :: "string option \<Rightarrow> string option" where
  "trimOrNull s =
     (case s of None \<Rightarrow> None | Some t \<Rightarrow> if trim t = [] then None else Some (trim t))"

definition insertLog :: "store \<Rightarrow> medicine_log \<Rightarrow> store" where
  "insertLog db logData = db \<lparr> medicine_logs := medicine_logs db @ [logData] \<rparr>"

text \<open>The steps after the validation, shared by the two versions of the route, which
  differ in the row they write (\<open>mkRow\<close>, given the medicine and the time) and in
  whether the 409 answer carries \<^verbatim>\<open>duplicateCount\<close> and the insert distinguishes the
  check-constraint code 23514. An unparseable time cannot pass the validation; the
  branch stands for the \<^verbatim>\<open>RangeError\<close> of \<^verbatim>\<open>toISOString\<close>, which the
  \<^verbatim>\<open>catch\<close> turns into a 500.\<close>

definition afterValidation ::
  "bool \<Rightarrow> (medicine \<Rightarrow> int \<Rightarrow> medicine_log) \<Rightarrow> db_faults \<Rightarrow> store \<Rightarrow> string \<Rightarrow> string \<Rightarrow>
   time_string \<Rightarrow> create_log_response \<times> store" where
  "afterValidation final mkRow faults db userId mid logTime =
     (if medicineError faults then (LogMedicineNotFound404, db)
      else case selectMedicine db mid userId of
        None \<Rightarrow> (LogMedicineNotFound404, db)
      | Some medicine \<Rightarrow>
          (case logTime of
             Unparseable \<Rightarrow> (InternalServerError500, db)
           | Instant takenDate \<Rightarrow>
               (let dups = duplicateCheck db userId mid takenDate
                in if \<not> duplicateError faults \<and> length dups > 0
                   then (DuplicateEntry409 (if final then Some (length dups) else None), db)
                   else
                     (case insertError faults of
                        Some code \<Rightarrow>
                          (if final \<and> code = ''23514'' then (ConstraintViolation400, db)
                           else (DatabaseError500, db))
                      | None \<Rightarrow>
                          (let logData = mkRow medicine takenDate
                           in (Created201 logData, insertLog db logData))))))"

text \<open>The final version (unnamed/part_010): a missing \<^verbatim>\<open>takenAt\<close> is the current time.
  After a successful validation \<^verbatim>\<open>medicineId\<close> is present.\<close>

definition create_log :: "db_faults \<Rightarrow> store \<Rightarrow> string \<Rightarrow> int \<Rightarrow> log_request \<Rightarrow>
    create_log_response \<times> store" where
  "create_log faults db userId now req =
     (let logTime = (case req_takenAt req of None \<Rightarrow> Instant now | Some t \<Rightarrow> t);
          errors = validateMedicineLog now (req_medicineId req) (Some logTime)
                     (req_dosageTaken req) (req_notes req)
      in if errors \<noteq> [] then (ValidationError400 errors, db)
         else afterValidation True
                (\<lambda>medicine takenDate.
                   \<lparr> user_id = userId, medicine_id = the (req_medicineId req),
                     taken_at = takenDate,
                     dosage_taken = trimOrNull (req_dosageTaken req),
                     notes_col = trimOrNull (req_notes req),
                     scheduled_time = None, created_at = None \<rparr>)
                faults db userId (the (req_medicineId req)) logTime)"

text \<open>The first version (routes/medicineLogs.js): \<^verbatim>\<open>takenAt\<close> is required, the dosage
  defaults to the one of the medicine, and the row carries \<^verbatim>\<open>scheduled_time\<close> and
  \<^verbatim>\<open>created_at\<close>. After a successful validation \<^verbatim>\<open>medicineId\<close> and
  \<^verbatim>\<open>takenAt\<close> are present.\<close>

definition create_log_v1 :: "db_faults \<Rightarrow> store \<Rightarrow> string \<Rightarrow> int \<Rightarrow> log_request \<Rightarrow>
    create_log_response \<times> store" where
  "create_log_v1 faults db userId now req =
     (let errors = validateMedicineLog_v1 now (req_medicineId req) (req_takenAt req)
                     (req_dosageTaken req) (req_notes req)
      in if errors \<noteq> [] then (ValidationError400 errors, db)
         else afterValidation False
                (\<lambda>medicine takenDate.
                   \<lparr> user_id = userId, medicine_id = the (req_medicineId req),
                     taken_at = takenDate,
                     dosage_taken =
                       (case trimOrNull (req_dosageTaken req) of
                          None \<Rightarrow> Some (dose_col medicine) | Some d \<Rightarrow> Some d),
                     notes_col = trimOrNull (req_notes req),
                     scheduled_time =
                       (if req_scheduledTime req = Some [] then None else req_scheduledTime req),
                     created_at = Some now \<rparr>)
                faults db userId (the (req_medicineId req)) (the (req_takenAt req)))"

section \<open>Adherence analytics (GET /api/medicine-logs/analytics/adherence, final version)\<close>

text \<open>A log row with the medicine embedded by the query
  (\<^verbatim>\<open>select('*, medicines (id, name, schedule_type, interval_minutes, ...)')\<close>).\<close>

type_synonym joined_log = "medicine_log \<times> medicine"

text \<open>The query: the logs of the user whose \<^verbatim>\<open>taken_at\<close> lies in the window, both ends
  included, for one medicine when \<^verbatim>\<open>medicineId\<close> is given (and not empty), in ascending
  order of \<^verbatim>\<open>taken_at\<close>.\<close>

definition selectLogs ::
  "joined_log list \<Rightarrow> string \<Rightarrow> string option \<Rightarrow> int \<Rightarrow> int \<Rightarrow> joined_log list" where
  "selectLogs rows userId medicineId start end' =
     sort_key (\<lambda>r. taken_at (fst r))
       (filter (\<lambda>r. user_id (fst r) = userId
                    \<and> start \<le> taken_at (fst r) \<and> taken_at (fst r) \<le> end'
                    \<and> (case medicineId of
                          None \<Rightarrow> True
                        | Some mid \<Rightarrow> mid = [] \<or> medicine_id (fst r) = mid))
          rows)"

text \<open>\<^verbatim>\<open>log.taken_at.split('T')[0]\<close>, the calendar day of the timestamp, as the number
  of the day since the epoch.\<close>

definition dayKey :: "int \<Rightarrow> int" where
  "dayKey t = t div (24 * 60 * 60 * 1000)"

text \<open>An entry of \<^verbatim>\<open>medicineStats\<close>; \<open>s_daysActive\<close> is the \<^verbatim>\<open>Set\<close> of days in
  the order of insertion.\<close>

record stat =
  s_medicineId :: string
  s_medicineName :: string
  s_scheduleType :: string
  s_intervalMinutes :: "int option"
  s_totalTaken :: nat
  s_daysActive :: "int list"

text \<open>The two objects \<^verbatim>\<open>medicineStats\<close> and \<^verbatim>\<open>dailyStats\<close> are association lists
  in the order in which the keys were first written, which is the order
  \<^verbatim>\<open>Object.values\<close> and \<^verbatim>\<open>Object.keys\<close> enumerate for keys that are not array
  indices (the medicine ids are UUIDs, the days are dates). One step of
  \<^verbatim>\<open>logs.forEach\<close>:\<close>

definition addLog ::
  "(string \<times> stat) list \<times> (int \<times> nat) list \<Rightarrow> joined_log \<Rightarrow>
   (string \<times> stat) list \<times> (int \<times> nat) list" where
  "addLog acc r =
     (let medicineStats = fst acc; dailyStats = snd acc;
          log = fst r;
          medicineKey = medicine_id log;
          day = dayKey (taken_at log);
          st = (case map_of medicineStats medicineKey of
                  None \<Rightarrow> \<lparr> s_medicineId = medicine_id log,
                             s_medicineName = name_col (snd r),
                             s_scheduleType = schedule_type (snd r),
                             s_intervalMinutes = interval_minutes (snd r),
                             s_totalTaken = 0,
                             s_daysActive = [] \<rparr>
                | Some st \<Rightarrow> st);
          st' = st \<lparr> s_totalTaken := s_totalTaken st + 1,
                     s_daysActive := (if day \<in> set (s_daysActive st) then s_daysActive st
                                      else s_daysActive st @ [day]) \<rparr>;
          count = (case map_of dailyStats day of None \<Rightarrow> 0 | Some c \<Rightarrow> c)
      in (AList.update medicineKey st' medicineStats,
          AList.update day (count + 1) dailyStats))"

definition collectStats :: "joined_log list \<Rightarrow> (string \<times> stat) list \<times> (int \<times> nat) list" where
  "collectStats logs = foldl addLog ([], []) logs"

text \<open>The logs of one medicine among the logs, in their order: what an entry of the
  report is compared with.\<close>

definition logsFor :: "string \<Rightarrow> joined_log list \<Rightarrow> joined_log list" where
  "logsFor mid logs = filter (\<lambda>r. medicine_id (fst r) = mid) logs"

text \<open>What the entry of \<^verbatim>\<open>medicineStats\<close> for a medicine is to be, from the logs of that
  medicine alone: the medicine embedded in its first log, the number of its logs and
  the days of its logs. The loop, which meets the logs of all medicines interleaved, is
  compared with it.\<close>

definition addDay :: "int list \<Rightarrow> joined_log \<Rightarrow> int list" where
  "addDay days r =
     (if dayKey (taken_at (fst r)) \<in> set days then days
      else days @ [dayKey (taken_at (fst r))])"

definition statOf :: "string \<Rightarrow> joined_log list \<Rightarrow> stat" where
  "statOf mid logs =
     (let rs = logsFor mid logs
      in \<lparr> s_medicineId = mid,
           s_medicineName = name_col (snd (hd rs)),
           s_scheduleType = schedule_type (snd (hd rs)),
           s_intervalMinutes = interval_minutes (snd (hd rs)),
           s_totalTaken = length rs,
           s_daysActive = foldl addDay [] rs \<rparr>)"

text \<open>\<^verbatim>\<open>Math.round\<close>, and the decimal that the string \<^verbatim>\<open>x.toFixed(1)\<close> of the answer
  denotes: the exact value of \<open>x\<close> rounded to the nearest multiple of 1/10, a tie
  taking the larger magnitude.\<close>

definition mathRound :: "real \<Rightarrow> int" where
  "mathRound x = \<lfloor>x + 1 / 2\<rfloor>"

definition toFixed1 :: "real \<Rightarrow> real" where
  "toFixed1 x =
     (if x < 0 then - (real_of_int \<lfloor>(- x) * 10 + 1 / 2\<rfloor> / 10)
      else real_of_int \<lfloor>x * 10 + 1 / 2\<rfloor> / 10)"

text \<open>The pair \<^verbatim>\<open>(expectedDoses, adherenceRate)\<close> that the branches on the schedule
  type assign, given \<^verbatim>\<open>totalDays\<close> and the window; both stay 0 for any
  other medicine. Each division and the product by 100 is rounded to a double.\<close>

definition expectation :: "stat \<Rightarrow> int \<Rightarrow> int \<Rightarrow> int \<Rightarrow> int \<times> real" where
  "expectation st totalDays start end' =
     (if s_scheduleType st = ''interval'' \<and> populated (s_intervalMinutes st) then
        (let totalMinutes = fl (real_of_int (end' - start) / (1000 * 60));
             expected = \<lfloor>fl (totalMinutes / real_of_int (the (s_intervalMinutes st)))\<rfloor>
         in (expected,
             if expected > 0
             then fl (fl (real (s_totalTaken st) / real_of_int expected) * 100) else 0))
      else if s_scheduleType st = ''meal_based'' then
        (let expected = totalDays * 3
         in (expected,
             if expected > 0
             then fl (fl (real (s_totalTaken st) / real_of_int expected) * 100) else 0))
      else (0, 0))"

record adherence_entry =
  medicineId :: string
  medicineName :: string
  scheduleType :: string
  intervalMinutes :: "int option"
  totalTaken :: nat
  expectedDoses :: int
  daysActive :: nat
  totalDays :: int
  adherenceRate :: real

definition adherenceEntry :: "int \<Rightarrow> int \<Rightarrow> stat \<Rightarrow> adherence_entry" where
  "adherenceEntry start end' st =
     (let days = length (s_daysActive st);
          tdays = \<lceil>fl (real_of_int (end' - start) / (24 * 60 * 60 * 1000))\<rceil>;
          ex = expectation st tdays start end'
      in \<lparr> medicineId = s_medicineId st,
           medicineName = s_medicineName st,
           scheduleType = s_scheduleType st,
           intervalMinutes = s_intervalMinutes st,
           totalTaken = s_totalTaken st,
           expectedDoses = mathRound (real_of_int (fst ex)),
           daysActive = days,
           totalDays = tdays,
           adherenceRate = toFixed1 (min 100 (snd ex)) \<rparr>)"

text \<open>The answer: \<^verbatim>\<open>analytics\<close>, one entry for each value of \<^verbatim>\<open>medicineStats\<close>, and
  \<^verbatim>\<open>dailyStats\<close>, the pairs of a day and its count sorted by the day.\<close>

record adherence_report =
  analytics :: "adherence_entry list"
  dailyStats :: "(int \<times> nat) list"

definition adherenceReport :: "joined_log list \<Rightarrow> int \<Rightarrow> int \<Rightarrow> adherence_report" where
  "adherenceReport logs start end' =
     (let stats = collectStats logs
      in \<lparr> analytics = map (adherenceEntry start end') (map snd (fst stats)),
           dailyStats = sort_key fst (snd stats) \<rparr>)"

datatype adherence_response =
    AdherenceDatabaseError500
  | AdherenceOk200 adherence_report

text \<open>The handler, from the window it has computed: 500 when the query fails.\<close>

definition adherence_route ::
  "bool \<Rightarrow> joined_log list \<Rightarrow> string \<Rightarrow> string option \<Rightarrow> int \<Rightarrow> int \<Rightarrow> adherence_response" where
  "adherence_route queryError rows userId medicineId' start end' =
     (if queryError then AdherenceDatabaseError500
      else AdherenceOk200 (adherenceReport (selectLogs rows userId medicineId' start end')
             start end'))"

section \<open>Sample rows\<close>

text \<open>Rows used to instantiate the theorems below: a medicine taken once a day and a
  medicine taken with meals, both of the user \<open>u1\<close>, and a log of that user for a
  medicine at a time.\<close>

definition aspirin :: medicine where
  "aspirin = \<lparr> med_id = ''m1'', med_user_id = ''u1'', name_col = ''Aspirin'',
       dose_col = ''10mg'', schedule_type = ''interval'', interval_minutes = Some 1440,
       interval_days = None, meal_timing = None \<rparr>"

definition iron :: medicine where
  "iron = \<lparr> med_id = ''m2'', med_user_id = ''u1'', name_col = ''Iron'',
       dose_col = ''1 pill'', schedule_type = ''meal_based'', interval_minutes = None,
       interval_days = None, meal_timing = Some [''with_meal''] \<rparr>"

definition logAt :: "string \<Rightarrow> int \<Rightarrow> medicine_log" where
  "logAt mid t = \<lparr> user_id = ''u1'', medicine_id = mid, taken_at = t, dosage_taken = None,
       notes_col = None, scheduled_time = None, created_at = None \<rparr>"

definition noFaults :: db_faults where
  "noFaults = \<lparr> medicineError = False, duplicateError = False, insertError = None \<rparr>"

definition sampleStore :: store where
  "sampleStore = \<lparr> medicines = [aspirin], medicine_logs = [logAt ''m1'' 1700000000000] \<rparr>"

definition sampleRequest :: "int \<Rightarrow> log_request" where
  "sampleRequest t = \<lparr> req_medicineId = Some ''m1'', req_takenAt = Some (Instant t),
       req_dosageTaken = None, req_notes = None, req_scheduledTime = None \<rparr>"

section \<open>Properties of the weight conversion\<close>

lemma toLowerCase_units:
  "toLowerCase ''kg'' = ''kg''"
  "toLowerCase ''lbs'' = ''lbs''"
  "toLowerCase ''pounds'' = ''pounds''"
  "toLowerCase ''stone'' = ''stone''"
  by code_simp+

lemma round_trip_factor:
  "convertWeight (convertWeight w ''kg'' ''lbs'') ''lbs'' ''kg'' = w * 0.99999799504"
  by (simp add: convertWeight_def weightInKg_def toLowerCase_units)

text \<open>
  Claim C3, as stated: for every weight \<open>w > 0\<close>, converting from kg to lbs and back
  gives a value within 1e-3 of \<open>w\<close>. The two constants multiply to 0.99999799504, so
  the round trip loses about two millionths of the value, which is more than 1e-3 from
  about 498.76 on: at 900 kg the result is 899.998195536.
\<close>

theorem convertWeight_round_trip_counterexample:
  "\<not> \<bar>convertWeight (convertWeight 900 ''kg'' ''lbs'') ''lbs'' ''kg'' - 900\<bar> \<le> 1 / 1000"
  by (simp add: round_trip_factor)

text \<open>
  Claim C3, amended: for every weight \<open>w\<close> with \<open>0 < w \<le> 498\<close>, converting from kg
  to lbs and back gives a value within 1e-3 of \<open>w\<close>.
\<close>

theorem convertWeight_round_trip:
  assumes "0 < w" and "w \<le> 498"
  shows "\<bar>convertWeight (convertWeight w ''kg'' ''lbs'') ''lbs'' ''kg'' - w\<bar> \<le> 1 / 1000"
proof -
  have "\<bar>w * 0.99999799504 - w\<bar> = w * 0.00000200496"
    using assms(1) by (simp add: abs_if)
  also have "\<dots> \<le> 498 * 0.00000200496"
    using assms(2) by simp
  also have "\<dots> \<le> 1 / 1000"
    by simp
  finally show ?thesis
    by (simp only: round_trip_factor)
qed

theorem convertWeight_round_trip_witness:
  "(0::real) < 70 \<and> (70::real) \<le> 498
   \<and> \<bar>convertWeight (convertWeight 70 ''kg'' ''lbs'') ''lbs'' ''kg'' - 70\<bar> \<le> 1 / 1000"
  using convertWeight_round_trip [of 70] by simp

text \<open>
  Claim C7, as stated: whenever the source unit or the target unit is not one of kg, lbs,
  pounds, the value is returned unconverted. For a known source unit and an unknown
  target unit the function returns the kilograms: 100 lbs to ``stone'' gives 45.3592.
\<close>

theorem convertWeight_unknown_unit_counterexample:
  "\<not> knownUnit ''stone'' \<and> convertWeight 100 ''lbs'' ''stone'' = 45.3592
   \<and> convertWeight 100 ''lbs'' ''stone'' \<noteq> 100"
  by (simp add: knownUnit_def convertWeight_def weightInKg_def toLowerCase_units)

text \<open>
  Claim C7, amended: when the source unit is not one of kg, lbs, pounds (after
  lowercasing), the value is returned unconverted, whatever the target unit; when the
  source unit is known and the target unit is not, the result is the value in
  kilograms: the input itself for a source in kg, and the input times 0.453592 for a
  source in lbs or pounds.
\<close>

theorem convertWeight_unknown_unit:
  "(\<not> knownUnit fromUnit \<longrightarrow> convertWeight w fromUnit toUnit = w)
   \<and> (toLowerCase fromUnit = ''kg'' \<and> \<not> knownUnit toUnit \<longrightarrow>
        convertWeight w fromUnit toUnit = w)
   \<and> (toLowerCase fromUnit \<in> {''lbs'', ''pounds''} \<and> \<not> knownUnit toUnit \<longrightarrow>
        convertWeight w fromUnit toUnit = w * 0.453592)"
  by (auto simp add: knownUnit_def convertWeight_def weightInKg_def)

theorem convertWeight_unknown_unit_witness:
  "\<not> knownUnit ''stone'' \<and> toLowerCase ''kg'' = ''kg''
   \<and> toLowerCase ''lbs'' \<in> {''lbs'', ''pounds''}
   \<and> convertWeight 100 ''stone'' ''lbs'' = 100
   \<and> convertWeight 100 ''kg'' ''stone'' = 100
   \<and> convertWeight 100 ''lbs'' ''stone'' = 45.3592"
  using convertWeight_unknown_unit [where fromUnit = "''stone''" and w = 100
      and toUnit = "''lbs''"]
    convertWeight_unknown_unit [where fromUnit = "''kg''" and w = 100
      and toUnit = "''stone''"]
    convertWeight_unknown_unit [where fromUnit = "''lbs''" and w = 100
      and toUnit = "''stone''"]
  by (simp add: knownUnit_def toLowerCase_units)

text \<open>
  Claim C10: a conversion from a unit to itself is the identity for kg, and for lbs and
  for pounds it is the multiplication by 0.453592 and then by 2.20462, which changes
  every value other than 0.
\<close>

theorem convertWeight_same_unit:
  "convertWeight w ''kg'' ''kg'' = w
   \<and> (u \<in> {''lbs'', ''pounds''} \<longrightarrow>
        convertWeight w u u = w * 0.453592 * 2.20462
        \<and> (w \<noteq> 0 \<longrightarrow> convertWeight w u u \<noteq> w))"
  by (auto simp add: convertWeight_def weightInKg_def toLowerCase_units)

theorem convertWeight_same_unit_witness:
  "''lbs'' \<in> {''lbs'', ''pounds''} \<and> (70::real) \<noteq> 0
   \<and> convertWeight 70 ''lbs'' ''lbs'' = 70 * 0.453592 * 2.20462
   \<and> convertWeight 70 ''lbs'' ''lbs'' \<noteq> 70"
  using convertWeight_same_unit [of 70 "''lbs''"] by simp

section \<open>Properties of the rounding\<close>

text \<open>Evaluation of \<open>fl\<close> at a numeral: the facts are meant for closed terms only.\<close>

lemmas fl_eval = fl_def floorLog2_def roundEven_def compute_bitlen

text \<open>\<open>floorLog2\<close> is the exponent of the binade of a positive number, and
  \<open>roundEven\<close> is at most a half away from its argument; so \<open>fl\<close> is at most half
  a unit in the last place away.\<close>

lemma floorLog2_bounds:
  assumes "0 < y"
  shows "2 powi (floorLog2 y) \<le> y \<and> y < 2 powi (floorLog2 y + 1)"
proof (cases "1 \<le> y")
  case True
  define n where "n = \<lfloor>y\<rfloor>"
  have n1: "1 \<le> n" using True by (simp add: n_def le_floor_iff)
  then have n0: "0 < n" by simp
  from bitlen_bounds [OF n0]
  have lo: "2 ^ nat (bitlen n - 1) \<le> n" and hi: "n < 2 ^ nat (bitlen n)" by simp_all
  have b1: "1 \<le> bitlen n"
    using bitlen_eq_zero_iff [of n] bitlen_nonneg [of n] n0 by linarith
  have k: "floorLog2 y = bitlen n - 1" using True by (simp add: floorLog2_def n_def)
  have "real_of_int (2 ^ nat (bitlen n - 1)) \<le> real_of_int n" using lo by linarith
  also have "\<dots> \<le> y" by (simp add: n_def)
  finally have 1: "2 powi (bitlen n - 1) \<le> y"
    using b1 by (simp add: power_int_def)
  have "y < real_of_int n + 1" by (simp add: n_def)
  also have "\<dots> \<le> real_of_int (2 ^ nat (bitlen n))" using hi by linarith
  finally have 2: "y < 2 powi (bitlen n)"
    using b1 by (simp add: power_int_def)
  show ?thesis using 1 2 by (simp add: k)
next
  case False
  define c where "c = \<lceil>1 / y\<rceil>"
  define n where "n = c - 1"
  have z1: "1 < 1 / y" using False assms by simp
  have n1: "1 \<le> n" using z1 by (simp add: n_def c_def less_ceiling_iff)
  then have n0: "0 < n" by simp
  from bitlen_bounds [OF n0]
  have lo: "2 ^ nat (bitlen n - 1) \<le> n" and hi: "n < 2 ^ nat (bitlen n)" by simp_all
  have b1: "1 \<le> bitlen n"
    using bitlen_eq_zero_iff [of n] bitlen_nonneg [of n] n0 by linarith
  have k: "floorLog2 y = - bitlen n" using False by (simp add: floorLog2_def n_def c_def)
  have "1 / y \<le> real_of_int c" by (simp add: c_def)
  also have "\<dots> = real_of_int n + 1" by (simp add: n_def)
  also have "\<dots> \<le> real_of_int (2 ^ nat (bitlen n))" using hi by linarith
  finally have "1 / y \<le> 2 ^ nat (bitlen n)" by simp
  then have "1 / 2 ^ nat (bitlen n) \<le> y"
    using assms by (simp add: field_simps)
  then have 1: "2 powi (- bitlen n) \<le> y"
    using b1 by (simp add: power_int_def field_simps)
  have "real_of_int (2 ^ nat (bitlen n - 1)) \<le> real_of_int n" using lo by linarith
  also have "\<dots> < 1 / y" unfolding n_def c_def by linarith
  finally have "2 ^ nat (bitlen n - 1) < 1 / y" by simp
  then have "y < 1 / 2 ^ nat (bitlen n - 1)"
    using assms by (simp add: field_simps)
  then have 2: "y < 2 powi (- bitlen n + 1)"
    using b1 by (cases "bitlen n = 1") (simp_all add: power_int_def field_simps nat_diff_distrib)
  show ?thesis using 1 2 by (simp add: k)
qed

lemma roundEven_error: "\<bar>real_of_int (roundEven q) - q\<bar> \<le> 1 / 2"
  unfolding roundEven_def Let_def by (auto simp add: abs_if) linarith+

lemma fl_error_exp:
  assumes "x \<noteq> 0"
  shows "\<bar>fl x - x\<bar> \<le> 2 powi (max (floorLog2 \<bar>x\<bar> - 52) (- 1074)) / 2"
proof -
  define e where "e = max (floorLog2 \<bar>x\<bar> - 52) (- 1074)"
  define q where "q = \<bar>x\<bar> / 2 powi e"
  have p: "(0::real) < 2 powi e" by simp
  have f: "fl x = sgn x * real_of_int (roundEven q) * 2 powi e"
    using assms by (simp add: fl_def Let_def e_def q_def)
  have x: "x = sgn x * q * 2 powi e"
    by (simp add: q_def sgn_mult_abs)
  have "fl x - x = sgn x * (real_of_int (roundEven q) - q) * 2 powi e"
    by (subst f, subst (2) x) (simp add: algebra_simps)
  then have "\<bar>fl x - x\<bar> = \<bar>real_of_int (roundEven q) - q\<bar> * 2 powi e"
    using assms by (simp add: abs_mult abs_sgn_eq)
  also have "\<dots> \<le> 1 / 2 * 2 powi e"
    using roundEven_error [of q] p by (intro mult_right_mono) simp_all
  finally show ?thesis by (simp add: e_def)
qed

text \<open>For a number of the normal range the relative error of the rounding is at most
  \<open>2^-53\<close>.\<close>

lemma fl_error:
  assumes "2 powi (- 1022) \<le> \<bar>x\<bar>"
  shows "\<bar>fl x - x\<bar> \<le> \<bar>x\<bar> * 2 powi (- 53)"
proof -
  have "(0::real) < 2 powi (- 1022)"
    by (rule zero_less_power_int) simp
  then have pos: "0 < \<bar>x\<bar>"
    using assms by linarith
  then have x0: "x \<noteq> 0" by simp
  define k where "k = floorLog2 \<bar>x\<bar>"
  from floorLog2_bounds [OF pos]
  have lo: "2 powi k \<le> \<bar>x\<bar>" and hi: "\<bar>x\<bar> < 2 powi (k + 1)" by (simp_all add: k_def)
  have "(2::real) powi (- 1022) < 2 powi (k + 1)" using assms hi by linarith
  then have "- 1022 < k + 1"
    using power_int_increasing [of "k + 1" "- 1022" "2::real"] by force
  then have m: "max (k - 52) (- 1074) = k - 52" by simp
  have "\<bar>fl x - x\<bar> \<le> 2 powi (k - 52) / 2"
    using fl_error_exp [OF x0] by (simp add: k_def [symmetric] m)
  also have "\<dots> = 2 powi k * 2 powi (- 53)"
    by (simp add: power_int_diff power_int_minus field_simps)
  also have "\<dots> \<le> \<bar>x\<bar> * 2 powi (- 53)"
    using lo by (intro mult_right_mono) simp_all
  finally show ?thesis .
qed

text \<open>The two constants of the conversion as doubles, and the error of a product by
  one of them.\<close>

lemma fl_constants:
  "fl 0.453592 = 1021398381089119 / 2 ^ 51"
  "fl 2.20462 = 4964362905246771 / 2 ^ 51"
  by (simp_all add: fl_eval Let_def)

lemma fl_times_close:
  assumes "2 powi (- 1022) \<le> \<bar>v * C\<bar>" and "\<bar>C - c\<bar> \<le> d"
    and "\<bar>C\<bar> * 2 powi (- 53) + d \<le> b"
  shows "\<bar>fl (v * C) - v * c\<bar> \<le> \<bar>v\<bar> * b"
proof -
  have "fl (v * C) - v * c = (fl (v * C) - v * C) + v * (C - c)"
    by (simp add: algebra_simps)
  then have "\<bar>fl (v * C) - v * c\<bar> \<le> \<bar>fl (v * C) - v * C\<bar> + \<bar>v * (C - c)\<bar>"
    by (simp only: abs_triangle_ineq)
  also have "\<dots> \<le> \<bar>v * C\<bar> * 2 powi (- 53) + \<bar>v\<bar> * d"
    using fl_error [OF assms(1)] assms(2)
    by (intro add_mono) (simp_all add: abs_mult mult_left_mono)
  also have "\<dots> = \<bar>v\<bar> * (\<bar>C\<bar> * 2 powi (- 53) + d)"
    by (simp add: abs_mult algebra_simps)
  also have "\<dots> \<le> \<bar>v\<bar> * b"
    using assms(3) by (intro mult_left_mono) simp_all
  finally show ?thesis .
qed

lemma fl_times_lb:
  assumes "1 / 100 \<le> \<bar>w\<bar>"
  shows "\<bar>fl (w * fl 0.453592) - w * 0.453592\<bar> \<le> \<bar>w\<bar> * 2 powi (- 53)"
  unfolding fl_constants
proof (rule fl_times_close [where d = "2 powi (- 55)"])
  show "2 powi (- 1022) \<le> \<bar>w * (1021398381089119 / 2 ^ 51)\<bar>"
    using assms by (simp add: abs_mult power_int_minus)
  show "\<bar>1021398381089119 / 2 ^ 51 - 0.453592\<bar> \<le> (2::real) powi (- 55)"
    by (simp add: power_int_minus)
  show "\<bar>1021398381089119 / 2 ^ 51\<bar> * 2 powi (- 53) + 2 powi (- 55) \<le> (2::real) powi (- 53)"
    by (simp add: power_int_minus)
qed

lemma fl_times_kg:
  assumes "1 / 1000 \<le> \<bar>v\<bar>"
  shows "\<bar>fl (v * fl 2.20462) - v * 2.20462\<bar> \<le> \<bar>v\<bar> * 2 powi (- 50)"
  unfolding fl_constants
proof (rule fl_times_close [where d = "2 powi (- 52)"])
  show "2 powi (- 1022) \<le> \<bar>v * (4964362905246771 / 2 ^ 51)\<bar>"
    using assms by (simp add: abs_mult power_int_minus)
  show "\<bar>4964362905246771 / 2 ^ 51 - 2.20462\<bar> \<le> (2::real) powi (- 52)"
    by (simp add: power_int_minus)
  show "\<bar>4964362905246771 / 2 ^ 51\<bar> * 2 powi (- 53) + 2 powi (- 52) \<le> (2::real) powi (- 50)"
    by (simp add: power_int_minus)
qed

lemma abs_near:
  fixes b v :: real
  shows "\<bar>b\<bar> \<le> \<bar>v\<bar> + \<bar>v - b\<bar>" and "\<bar>v\<bar> \<le> \<bar>b\<bar> + \<bar>v - b\<bar>"
  by linarith+

lemma fl_lb_then_kg:
  assumes "1 / 100 \<le> \<bar>w\<bar>"
  shows "\<bar>fl (fl (w * fl 0.453592) * fl 2.20462) - w * 0.453592 * 2.20462\<bar>
           \<le> \<bar>w\<bar> * 2 powi (- 50)"
proof -
  define v where "v = fl (w * fl 0.453592)"
  have 1: "\<bar>v - w * 0.453592\<bar> \<le> \<bar>w\<bar> * 2 powi (- 53)"
    unfolding v_def by (rule fl_times_lb [OF assms])
  have "\<bar>w * 0.453592\<bar> \<le> \<bar>v\<bar> + \<bar>v - w * 0.453592\<bar>"
    by (rule abs_near)
  then have lo: "\<bar>w\<bar> * 0.453592 - \<bar>w\<bar> * 2 powi (- 53) \<le> \<bar>v\<bar>"
    using 1 by (simp add: abs_mult)
  have "\<bar>v\<bar> \<le> \<bar>w * 0.453592\<bar> + \<bar>v - w * 0.453592\<bar>"
    by (rule abs_near)
  then have hi: "\<bar>v\<bar> \<le> \<bar>w\<bar> * 0.453592 + \<bar>w\<bar> * 2 powi (- 53)"
    using 1 by (simp add: abs_mult)
  have g: "1 / 1000 \<le> \<bar>v\<bar>"
    using lo assms by (simp add: power_int_minus)
  have 2: "\<bar>fl (v * fl 2.20462) - v * 2.20462\<bar> \<le> \<bar>v\<bar> * 2 powi (- 50)"
    by (rule fl_times_kg [OF g])
  have "fl (v * fl 2.20462) - w * 0.453592 * 2.20462
          = (fl (v * fl 2.20462) - v * 2.20462) + 2.20462 * (v - w * 0.453592)"
    by (simp add: algebra_simps)
  then have "\<bar>fl (v * fl 2.20462) - w * 0.453592 * 2.20462\<bar>
          \<le> \<bar>fl (v * fl 2.20462) - v * 2.20462\<bar> + \<bar>2.20462 * (v - w * 0.453592)\<bar>"
    by (simp only: abs_triangle_ineq)
  also have "\<dots> \<le> \<bar>v\<bar> * 2 powi (- 50) + 2.20462 * (\<bar>w\<bar> * 2 powi (- 53))"
  proof (intro add_mono)
    show "\<bar>fl (v * fl 2.20462) - v * 2.20462\<bar> \<le> \<bar>v\<bar> * 2 powi (- 50)"
      by (rule 2)
    have "\<bar>2.20462 * (v - w * 0.453592)\<bar> = 2.20462 * \<bar>v - w * 0.453592\<bar>"
      by (subst abs_mult) simp
    also have "\<dots> \<le> 2.20462 * (\<bar>w\<bar> * 2 powi (- 53))"
      using 1 by (intro mult_left_mono) simp_all
    finally show "\<bar>2.20462 * (v - w * 0.453592)\<bar> \<le> 2.20462 * (\<bar>w\<bar> * 2 powi (- 53))" .
  qed
  also have "\<dots> \<le> (\<bar>w\<bar> * 0.453592 + \<bar>w\<bar> * 2 powi (- 53)) * 2 powi (- 50)
                   + 2.20462 * (\<bar>w\<bar> * 2 powi (- 53))"
    using hi by (intro add_mono mult_right_mono) simp_all
  also have "\<dots> \<le> \<bar>w\<bar> * 2 powi (- 50)"
    by (simp add: power_int_minus)
  finally show ?thesis
    by (simp add: v_def)
qed

text \<open>The conversion on doubles stays within a relative distance of \<open>2^-50\<close> of the
  conversion on exact reals, for a weight of at least 0.01.\<close>

lemma convertWeight64_close:
  assumes "1 / 100 \<le> \<bar>w\<bar>"
  shows "\<bar>convertWeight64 w fromUnit toUnit - convertWeight w fromUnit toUnit\<bar>
           \<le> \<bar>w\<bar> * 2 powi (- 50)"
proof -
  have a: "1 / 1000 \<le> \<bar>w\<bar>" using assms by simp
  have z: "0 \<le> \<bar>w\<bar> * 2 powi (- 50)" by simp
  have s: "\<bar>w\<bar> * 2 powi (- 53) \<le> \<bar>w\<bar> * 2 powi (- 50)"
    by (intro mult_left_mono) (simp_all add: power_int_minus)
  show ?thesis
    using fl_times_lb [OF assms] fl_times_kg [OF a] fl_lb_then_kg [OF assms] z s
    by (auto simp add: convertWeight64_def convertWeight_def weightInKg64_def weightInKg_def
          Let_def)
qed

text \<open>The round trip of claim C3 as the code computes it, on doubles: for a weight
  from 0.01 to 498 it stays within \<open>1e-3\<close> of the input, as the round trip on exact
  reals does.\<close>

lemma convertWeight64_round_trip:
  assumes "1 / 100 \<le> w" and "w \<le> 498"
  shows "\<bar>convertWeight64 (convertWeight64 w ''kg'' ''lbs'') ''lbs'' ''kg'' - w\<bar> \<le> 1 / 1000"
proof -
  define v where "v = fl (w * fl 2.20462)"
  have w0: "0 \<le> w" and aw: "\<bar>w\<bar> = w" using assms(1) by simp_all
  have rt: "convertWeight64 (convertWeight64 w ''kg'' ''lbs'') ''lbs'' ''kg''
              = fl (v * fl 0.453592)"
    by (simp add: convertWeight64_def weightInKg64_def toLowerCase_units v_def)
  have "1 / 1000 \<le> \<bar>w\<bar>" using assms(1) by simp
  then have 1: "\<bar>v - w * 2.20462\<bar> \<le> w * 2 powi (- 50)"
    unfolding v_def using fl_times_kg [of w] by (simp only: aw)
  have "\<bar>w * 2.20462\<bar> \<le> \<bar>v\<bar> + \<bar>v - w * 2.20462\<bar>"
    by (rule abs_near)
  then have "w * 2.20462 - w * 2 powi (- 50) \<le> \<bar>v\<bar>"
    using 1 w0 by (simp add: abs_mult)
  then have g: "1 / 100 \<le> \<bar>v\<bar>"
    using assms(1) by (simp add: power_int_minus)
  have "\<bar>v\<bar> \<le> \<bar>w * 2.20462\<bar> + \<bar>v - w * 2.20462\<bar>"
    by (rule abs_near)
  then have hi: "\<bar>v\<bar> \<le> w * 2.20462 + w * 2 powi (- 50)"
    using 1 w0 by (simp add: abs_mult)
  have 2: "\<bar>fl (v * fl 0.453592) - v * 0.453592\<bar> \<le> \<bar>v\<bar> * 2 powi (- 53)"
    by (rule fl_times_lb [OF g])
  have "fl (v * fl 0.453592) - w
          = (fl (v * fl 0.453592) - v * 0.453592)
            + (0.453592 * (v - w * 2.20462) + w * (- 0.00000200496))"
    by (simp add: algebra_simps)
  then have "\<bar>fl (v * fl 0.453592) - w\<bar>
          \<le> \<bar>fl (v * fl 0.453592) - v * 0.453592\<bar>
            + \<bar>0.453592 * (v - w * 2.20462) + w * (- 0.00000200496)\<bar>"
    by (simp only: abs_triangle_ineq)
  also have "\<dots> \<le> \<bar>fl (v * fl 0.453592) - v * 0.453592\<bar>
            + (\<bar>0.453592 * (v - w * 2.20462)\<bar> + \<bar>w * (- 0.00000200496)\<bar>)"
    by (intro add_left_mono abs_triangle_ineq)
  also have "\<dots> \<le> \<bar>v\<bar> * 2 powi (- 53)
            + (0.453592 * (w * 2 powi (- 50)) + w * 0.00000200496)"
  proof (intro add_mono)
    show "\<bar>fl (v * fl 0.453592) - v * 0.453592\<bar> \<le> \<bar>v\<bar> * 2 powi (- 53)"
      by (rule 2)
    have "\<bar>0.453592 * (v - w * 2.20462)\<bar> = 0.453592 * \<bar>v - w * 2.20462\<bar>"
      by (subst abs_mult) simp
    also have "\<dots> \<le> 0.453592 * (w * 2 powi (- 50))"
      using 1 by (intro mult_left_mono) simp_all
    finally show "\<bar>0.453592 * (v - w * 2.20462)\<bar> \<le> 0.453592 * (w * 2 powi (- 50))" .
    show "\<bar>w * (- 0.00000200496)\<bar> \<le> w * 0.00000200496"
      using w0 by (simp add: abs_mult)
  qed
  also have "\<dots> \<le> (w * 2.20462 + w * 2 powi (- 50)) * 2 powi (- 53)
            + (0.453592 * (w * 2 powi (- 50)) + w * 0.00000200496)"
    using hi by (intro add_right_mono mult_right_mono) simp_all
  also have "\<dots> \<le> w * (1 / 498000)"
    using w0 by (simp add: power_int_minus algebra_simps)
  also have "\<dots> \<le> 1 / 1000"
    using assms(2) by simp
  finally show ?thesis
    by (simp only: rt)
qed

section \<open>Properties of the weight trends\<close>

lemma trendOf_cases:
  "(trendOf c = ''stable'' \<longleftrightarrow> \<bar>c\<bar> \<le> 1 / 2)
   \<and> (trendOf c = ''increasing'' \<longleftrightarrow> c > 1 / 2)
   \<and> (trendOf c = ''decreasing'' \<longleftrightarrow> c < - (1 / 2))"
  by (auto simp add: trendOf_def)

lemma rawWeightChange_first_last:
  assumes "weights \<noteq> []"
  shows "rawWeightChange weights u
           = fl (convertWeight64 (fl (weight (last weights))) (unit_col (last weights)) u
                 - convertWeight64 (fl (weight (hd weights))) (unit_col (hd weights)) u)"
  using assms by (simp add: rawWeightChange_def weightValues_def last_map hd_map)

lemma trendAnalytics_change:
  "weightChange (trendAnalytics weights u) = toFixed2 (rawWeightChange weights u)"
  "trend (trendAnalytics weights u) = trendOf (rawWeightChange weights u)"
  by (simp_all add: trendAnalytics_def rawWeightChange_def Let_def)

lemma trendAnalytics_first_last:
  "firstWeight (trendAnalytics weights u) = toFixed2 (hd (weightValues weights u))"
  "lastWeight (trendAnalytics weights u) = toFixed2 (last (weightValues weights u))"
  by (simp_all add: trendAnalytics_def Let_def)

text \<open>The series 150 lbs, 151.11 lbs shown in kg has the values 68.0388 and
  68.54228712000001 and the change 0.5034871200000168; the series 63.51 kg, 64.01 kg
  shown in kg has the change 0.5000000000000071 (all of them doubles).\<close>

lemma weightValues_lbs_example:
  "weightValues [\<lparr>weight = 150, unit_col = ''lbs'', measured_at = 0\<rparr>,
       \<lparr>weight = 151.11, unit_col = ''lbs'', measured_at = 86400000\<rparr>] ''kg''
     = [4787804911355245 / 2 ^ 46, 4823234667699275 / 2 ^ 46]"
  apply (simp add: weightValues_def convertWeight64_def weightInKg64_def toLowerCase_units)
  apply (simp add: fl_eval Let_def)
  done

lemma rawWeightChange_lbs_example:
  "rawWeightChange [\<lparr>weight = 150, unit_col = ''lbs'', measured_at = 0\<rparr>,
       \<lparr>weight = 151.11, unit_col = ''lbs'', measured_at = 86400000\<rparr>] ''kg''
     = 17714878172015 / 2 ^ 45"
  apply (simp add: rawWeightChange_def weightValues_def convertWeight64_def weightInKg64_def
      toLowerCase_units)
  apply (simp add: fl_eval Let_def)
  done

lemma rawWeightChange_kg_example:
  "rawWeightChange [\<lparr>weight = 63.51, unit_col = ''kg'', measured_at = 0\<rparr>,
       \<lparr>weight = 64.01, unit_col = ''kg'', measured_at = 86400000\<rparr>] ''kg''
     = 70368744177665 / 2 ^ 47"
  apply (simp add: rawWeightChange_def weightValues_def convertWeight64_def weightInKg64_def
      toLowerCase_units)
  apply (simp add: fl_eval Let_def)
  done

text \<open>A single weight of 250 kg shown in lbs: the product is the double just below
  551.155, printed as 551.15.\<close>

lemma trendAnalytics_250_kg_in_lbs:
  "firstWeight (trendAnalytics [\<lparr>weight = 250, unit_col = ''kg'', measured_at = 0\<rparr>] ''lbs'')
     = 551.15"
  apply (simp add: trendAnalytics_first_last weightValues_def convertWeight64_def
      weightInKg64_def toLowerCase_units)
  apply (simp add: fl_eval toFixed2_def Let_def)
  done

text \<open>
  Claim C4, as stated: the report's \<^verbatim>\<open>weightChange\<close> equals the last minus the first
  converted weight, and the trend is stable when \<open>|weightChange| \<le> 0.5\<close>. The report
  carries the change rounded to two decimals, while the trend is decided on the
  unrounded change. For 150 lbs followed by 151.11 lbs, shown in kg, the change is
  0.5034871200000168: the report says \<^verbatim>\<open>weightChange = 0.5\<close>, the difference of its
  \<^verbatim>\<open>lastWeight\<close> 68.54 and \<^verbatim>\<open>firstWeight\<close> 68.04, together with
  \<^verbatim>\<open>trend = 'increasing'\<close>.
\<close>

theorem trends_weightChange_counterexample:
  "trends [\<lparr>weight = 150, unit_col = ''lbs'', measured_at = 0\<rparr>,
       \<lparr>weight = 151.11, unit_col = ''lbs'', measured_at = 86400000\<rparr>] ''kg''
     = Trends (trendAnalytics [\<lparr>weight = 150, unit_col = ''lbs'', measured_at = 0\<rparr>,
         \<lparr>weight = 151.11, unit_col = ''lbs'', measured_at = 86400000\<rparr>] ''kg'')
   \<and> rawWeightChange [\<lparr>weight = 150, unit_col = ''lbs'', measured_at = 0\<rparr>,
         \<lparr>weight = 151.11, unit_col = ''lbs'', measured_at = 86400000\<rparr>] ''kg''
       = 17714878172015 / 2 ^ 45
   \<and> firstWeight (trendAnalytics [\<lparr>weight = 150, unit_col = ''lbs'', measured_at = 0\<rparr>,
         \<lparr>weight = 151.11, unit_col = ''lbs'', measured_at = 86400000\<rparr>] ''kg'') = 68.04
   \<and> lastWeight (trendAnalytics [\<lparr>weight = 150, unit_col = ''lbs'', measured_at = 0\<rparr>,
         \<lparr>weight = 151.11, unit_col = ''lbs'', measured_at = 86400000\<rparr>] ''kg'') = 68.54
   \<and> weightChange (trendAnalytics [\<lparr>weight = 150, unit_col = ''lbs'', measured_at = 0\<rparr>,
         \<lparr>weight = 151.11, unit_col = ''lbs'', measured_at = 86400000\<rparr>] ''kg'') = 0.5
   \<and> trend (trendAnalytics [\<lparr>weight = 150, unit_col = ''lbs'', measured_at = 0\<rparr>,
         \<lparr>weight = 151.11, unit_col = ''lbs'', measured_at = 86400000\<rparr>] ''kg'')
       = ''increasing''"
  unfolding trendAnalytics_change trendAnalytics_first_last rawWeightChange_lbs_example
    weightValues_lbs_example
  by (simp add: trends_def toFixed2_def trendOf_def)

text \<open>
  Claim C4, amended: for every non-empty weight series, the change \<open>c\<close> is the last
  converted weight minus the first converted weight, as the handler computes it in
  double arithmetic and before any rounding to decimals; the report's
  \<^verbatim>\<open>weightChange\<close> is \<open>c\<close> rounded to two decimals; and the trend is decided on
  \<open>c\<close> itself: stable exactly when \<open>|c| \<le> 0.5\<close>, increasing exactly when
  \<open>c > 0.5\<close>, decreasing exactly when \<open>c < -0.5\<close>.
\<close>

theorem trends_weightChange:
  assumes "weights \<noteq> []"
  shows "trends weights u = Trends (trendAnalytics weights u)
     \<and> rawWeightChange weights u
           = fl (convertWeight64 (fl (weight (last weights))) (unit_col (last weights)) u
                 - convertWeight64 (fl (weight (hd weights))) (unit_col (hd weights)) u)
     \<and> weightChange (trendAnalytics weights u) = toFixed2 (rawWeightChange weights u)
     \<and> (trend (trendAnalytics weights u) = ''stable''
          \<longleftrightarrow> \<bar>rawWeightChange weights u\<bar> \<le> 1 / 2)
     \<and> (trend (trendAnalytics weights u) = ''increasing''
          \<longleftrightarrow> rawWeightChange weights u > 1 / 2)
     \<and> (trend (trendAnalytics weights u) = ''decreasing''
          \<longleftrightarrow> rawWeightChange weights u < - (1 / 2))"
  using assms rawWeightChange_first_last [OF assms, of u]
    trendOf_cases [of "rawWeightChange weights u"]
  by (simp add: trends_def trendAnalytics_change)

text \<open>The witness is the series 63.51 kg, 64.01 kg shown in kg: the decimals are 0.50
  apart and the doubles 0.5000000000000071, so that the report has
  \<^verbatim>\<open>weightChange = 0.5\<close> and \<^verbatim>\<open>trend = 'increasing'\<close>.\<close>

theorem trends_weightChange_witness:
  "[\<lparr>weight = 63.51, unit_col = ''kg'', measured_at = 0\<rparr>,
    \<lparr>weight = 64.01, unit_col = ''kg'', measured_at = 86400000\<rparr>] \<noteq> []
   \<and> rawWeightChange [\<lparr>weight = 63.51, unit_col = ''kg'', measured_at = 0\<rparr>,
        \<lparr>weight = 64.01, unit_col = ''kg'', measured_at = 86400000\<rparr>] ''kg''
       = 70368744177665 / 2 ^ 47
   \<and> weightChange (trendAnalytics [\<lparr>weight = 63.51, unit_col = ''kg'', measured_at = 0\<rparr>,
        \<lparr>weight = 64.01, unit_col = ''kg'', measured_at = 86400000\<rparr>] ''kg'') = 0.5
   \<and> trend (trendAnalytics [\<lparr>weight = 63.51, unit_col = ''kg'', measured_at = 0\<rparr>,
        \<lparr>weight = 64.01, unit_col = ''kg'', measured_at = 86400000\<rparr>] ''kg'')
       = ''increasing''"
  using trends_weightChange [of "[\<lparr>weight = 63.51, unit_col = ''kg'', measured_at = 0\<rparr>,
        \<lparr>weight = 64.01, unit_col = ''kg'', measured_at = 86400000\<rparr>]" "''kg''"]
  unfolding trendAnalytics_change rawWeightChange_kg_example
  by (simp add: toFixed2_def trendOf_def)

section \<open>Properties of the medicine validation\<close>

lemma validName_ok:
  assumes "2 \<le> length (trim n)" and "length (trim n) \<le> 100"
  shows "validName (Some n) = []"
  using assms by (cases "trim n") (auto simp add: validName_def)

lemma other_messages:
  "x \<in> set (validDose d) \<Longrightarrow> x \<notin> nameMessages"
  "x \<in> set (validScheduleType t) \<Longrightarrow> x \<notin> nameMessages"
  "x \<in> set (validInterval a b) \<Longrightarrow> x \<notin> nameMessages"
  "x \<in> set (validText500 ''Instructions must be less than 500 characters'' i)
     \<Longrightarrow> x \<notin> nameMessages"
  "x \<in> set (validText500 ''Notes must be less than 500 characters'' i)
     \<Longrightarrow> x \<notin> nameMessages"
  by (auto simp: validDose_def validScheduleType_def validInterval_def validText500_def
        nameMessages_def split: option.splits if_splits)

lemma invalidTimingMessage_not_name: "invalidTimingMessage i \<notin> nameMessages"
  by (simp add: invalidTimingMessage_def nameMessages_def)

lemma mealTiming_messages: "x \<in> set (validMealTiming m) \<Longrightarrow> x \<notin> nameMessages"
  using invalidTimingMessage_not_name
  by (auto simp: validMealTiming_def split: option.splits if_splits)
     (auto simp: nameMessages_def)

lemma rest_not_name:
  "x \<in> set (validDose dose
     @ validScheduleType sched
     @ (if sched = Some ''interval'' then validInterval mins days
        else [])
     @ (if sched = Some ''meal_based'' then validMealTiming timing else [])
     @ validText500 ''Instructions must be less than 500 characters'' instructions
     @ validText500 ''Notes must be less than 500 characters'' notes)
   \<Longrightarrow> x \<notin> nameMessages"
  using other_messages [of x] mealTiming_messages [of x]
  by (simp split: if_splits) blast

text \<open>
  Claim C8, as stated: validateMedicine accepts every name of 1 to 100 characters. The
  second check on the name refuses a trimmed name shorter than 2 characters: for the
  name ``A'' with valid other fields the only error is the one on the name.
\<close>

theorem validateMedicine_name_counterexample:
  "length (trim ''A'') = 1
   \<and> validateMedicine (Some ''A'') (Some ''10mg'') (Some ''interval'') (Some 480) None None
        None None
      = [''Medicine name must be at least 2 characters long'']
   \<and> ''Medicine name must be at least 2 characters long'' \<in> nameMessages"
  by (simp add: validateMedicine_def validName_def validDose_def validScheduleType_def
        validScheduleTypes_def validInterval_def validText500_def trim_def isWhiteSpace_def
        nameMessages_def)

text \<open>
  Claim C8, amended: validateMedicine accepts every medicine name of length 2 through
  100: when the trimmed name has between 2 and 100 characters, the returned error list
  contains no message about the name, whatever the other fields are.
\<close>

theorem validateMedicine_name:
  assumes "2 \<le> length (trim n)" and "length (trim n) \<le> 100"
  shows "set (validateMedicine (Some n) dose sched mins days
                timing instructions notes) \<inter> nameMessages = {}"
  unfolding validateMedicine_def
  using rest_not_name by (simp add: validName_ok [OF assms]) blast

theorem validateMedicine_name_witness:
  "2 \<le> length (trim ''Aspirin'') \<and> length (trim ''Aspirin'') \<le> 100
   \<and> set (validateMedicine (Some ''Aspirin'') (Some ''10mg'') (Some ''interval'') (Some 480)
            None None None None) \<inter> nameMessages = {}"
  using validateMedicine_name [of "''Aspirin''" "Some ''10mg''" "Some ''interval''"
      "Some 480" None None None None]
  by (simp add: trim_def isWhiteSpace_def)

section \<open>Properties of the next dose\<close>

text \<open>
  Claim C1: for a medicine of schedule type interval whose \<^verbatim>\<open>interval_minutes\<close> is
  populated with \<open>m\<close>: with a most recent log taken at \<open>t\<close>, the answer has
  \<^verbatim>\<open>nextDoseAt\<close> \<open>t\<close> plus \<open>m\<close> minutes, and \<^verbatim>\<open>isOverdue\<close> holds exactly when
  that instant is before the current time; without a log, \<^verbatim>\<open>nextDoseAt\<close> is the
  current time, \<^verbatim>\<open>isOverdue\<close> is false and \<^verbatim>\<open>lastDoseAt\<close> is absent.
\<close>

theorem nextDose_interval:
  assumes "schedule_type medicine = ''interval''"
    and "interval_minutes medicine = Some m" and "m \<noteq> 0"
  shows "next_dose_route (Some medicine) (Some t) now
           = NextDoseOk200 medicine
               (IntervalInfo (t + m * 60 * 1000) m (interval_days medicine) (Some t)
                  (t + m * 60 * 1000 < now))
     \<and> next_dose_route (Some medicine) None now
           = NextDoseOk200 medicine (IntervalInfo now m (interval_days medicine) None False)"
  using assms by (simp add: next_dose_route_def nextDose_def populated_def Let_def)

theorem nextDose_interval_witness:
  "schedule_type \<lparr> med_id = ''m1'', med_user_id = ''u1'', name_col = ''Aspirin'',
       dose_col = ''10mg'', schedule_type = ''interval'', interval_minutes = Some 480,
       interval_days = None, meal_timing = None \<rparr> = ''interval''
   \<and> (480::int) \<noteq> 0
   \<and> next_dose_route (Some \<lparr> med_id = ''m1'', med_user_id = ''u1'', name_col = ''Aspirin'',
       dose_col = ''10mg'', schedule_type = ''interval'', interval_minutes = Some 480,
       interval_days = None, meal_timing = None \<rparr>) (Some 1700000000000) 1700030000000
     = NextDoseOk200 \<lparr> med_id = ''m1'', med_user_id = ''u1'', name_col = ''Aspirin'',
       dose_col = ''10mg'', schedule_type = ''interval'', interval_minutes = Some 480,
       interval_days = None, meal_timing = None \<rparr>
         (IntervalInfo 1700028800000 480 None (Some 1700000000000) True)"
  using nextDose_interval [of "\<lparr> med_id = ''m1'', med_user_id = ''u1'',
       name_col = ''Aspirin'', dose_col = ''10mg'', schedule_type = ''interval'',
       interval_minutes = Some 480, interval_days = None, meal_timing = None \<rparr>"
       480 1700000000000 1700030000000]
  by simp

text \<open>
  Claim C9: for a medicine that is neither of schedule type interval with
  \<^verbatim>\<open>interval_minutes\<close> populated nor of schedule type meal_based, the handler does not
  fail: it answers 200 with the empty object as \<^verbatim>\<open>nextDose\<close>, with or without a last
  log.
\<close>

theorem nextDose_other_schedule:
  assumes "\<not> (schedule_type medicine = ''interval'' \<and> populated (interval_minutes medicine))"
    and "schedule_type medicine \<noteq> ''meal_based''"
  shows "next_dose_route (Some medicine) lastLog now = NextDoseOk200 medicine EmptyInfo"
  using assms by (auto simp add: next_dose_route_def nextDose_def)

theorem nextDose_other_schedule_witness:
  "\<not> (schedule_type \<lparr> med_id = ''m1'', med_user_id = ''u1'', name_col = ''Aspirin'',
         dose_col = ''10mg'', schedule_type = ''interval'', interval_minutes = None,
         interval_days = None, meal_timing = None \<rparr> = ''interval''
       \<and> populated (interval_minutes \<lparr> med_id = ''m1'', med_user_id = ''u1'',
         name_col = ''Aspirin'', dose_col = ''10mg'', schedule_type = ''interval'',
         interval_minutes = None, interval_days = None, meal_timing = None \<rparr>))
   \<and> next_dose_route (Some \<lparr> med_id = ''m1'', med_user_id = ''u1'', name_col = ''Aspirin'',
         dose_col = ''10mg'', schedule_type = ''interval'', interval_minutes = None,
         interval_days = None, meal_timing = None \<rparr>) (Some 1700000000000) 1700030000000
     = NextDoseOk200 \<lparr> med_id = ''m1'', med_user_id = ''u1'', name_col = ''Aspirin'',
         dose_col = ''10mg'', schedule_type = ''interval'', interval_minutes = None,
         interval_days = None, meal_timing = None \<rparr> EmptyInfo"
  using nextDose_other_schedule [of "\<lparr> med_id = ''m1'', med_user_id = ''u1'',
         name_col = ''Aspirin'', dose_col = ''10mg'', schedule_type = ''interval'',
         interval_minutes = None, interval_days = None, meal_timing = None \<rparr>"
         "Some 1700000000000" 1700030000000]
  by (simp add: populated_def)

section \<open>Properties of the duplicate check\<close>

lemma duplicateCheck_member:
  assumes "l \<in> set (medicine_logs db)" and "user_id l = userId" and "medicine_id l = mid"
    and "\<bar>t - taken_at l\<bar> \<le> 5 * 60 * 1000"
  shows "l \<in> set (duplicateCheck db userId mid t)"
  using assms by (auto simp add: duplicateCheck_def Let_def)

lemma validateMedicineLog_ok:
  assumes "mid \<noteq> []" and "t \<le> now" and "now - 365 * 24 * 60 * 60 * 1000 \<le> t"
    and "case d of None \<Rightarrow> True | Some x \<Rightarrow> length x \<le> 100"
    and "case n of None \<Rightarrow> True | Some x \<Rightarrow> length x \<le> 500"
  shows "validateMedicineLog now (Some mid) (Some (Instant t)) d n = []"
    and "validateMedicineLog_v1 now (Some mid) (Some (Instant t)) d n = []"
  using assms
  by (auto simp add: validateMedicineLog_def validateMedicineLog_v1_def validTakenAt_def
        validLogText_def split: option.splits)

lemma afterValidation_duplicate:
  assumes "l \<in> set (duplicateCheck db userId mid t)"
    and "selectMedicine db mid userId = Some medicine"
    and "\<not> medicineError faults" and "\<not> duplicateError faults"
  shows "afterValidation final mkRow faults db userId mid (Instant t)
           = (DuplicateEntry409
                (if final then Some (length (duplicateCheck db userId mid t)) else None), db)"
proof -
  have "duplicateCheck db userId mid t \<noteq> []"
    using assms(1) by auto
  then show ?thesis
    using assms(2-4) by (simp add: afterValidation_def Let_def)
qed

text \<open>
  Claim C5, as stated: with a log of the medicine at time \<open>T\<close>, every request for the
  same medicine with \<^verbatim>\<open>takenAt\<close> within five minutes of \<open>T\<close> is answered 409
  Duplicate Entry. The validation runs before the duplicate check: with the log taken
  one minute ago, a request for a time one minute ahead of the clock of the server is
  answered 400 Validation Error, in both versions of the route.
\<close>

theorem create_log_duplicate_counterexample:
  "logAt ''m1'' 1700000000000 \<in> set (medicine_logs sampleStore)
   \<and> \<bar>1700000120000 - taken_at (logAt ''m1'' 1700000000000)\<bar> \<le> 5 * 60 * 1000
   \<and> create_log noFaults sampleStore ''u1'' 1700000060000 (sampleRequest 1700000120000)
       = (ValidationError400 [''Cannot log medicine for future dates''], sampleStore)
   \<and> create_log_v1 noFaults sampleStore ''u1'' 1700000060000 (sampleRequest 1700000120000)
       = (ValidationError400 [''Cannot log medicine for future dates''], sampleStore)"
  by (simp add: sampleStore_def sampleRequest_def logAt_def create_log_def create_log_v1_def
        validateMedicineLog_def validateMedicineLog_v1_def validTakenAt_def validLogText_def)

text \<open>
  Claim C5, amended: for every existing log \<open>l\<close> of the requesting user for a medicine
  \<open>M\<close> that the user owns, a request to create a log for \<open>M\<close> whose \<^verbatim>\<open>takenAt\<close> is
  within five minutes of the time of \<open>l\<close> (ends included) and which passes the
  validation (a medicine id, a time not after the current time and not more than 365
  days before it, a dosage of at most 100 and notes of at most 500 characters) is
  answered 409 Duplicate Entry and the store is unchanged, in both versions of the
  route, provided the medicine query and the duplicate query do not fail.
\<close>

theorem create_log_duplicate:
  assumes "l \<in> set (medicine_logs db)" and "user_id l = userId" and "medicine_id l = mid"
    and "selectMedicine db mid userId = Some medicine"
    and "req_medicineId req = Some mid" and "req_takenAt req = Some (Instant t)"
    and "\<bar>t - taken_at l\<bar> \<le> 5 * 60 * 1000"
    and "mid \<noteq> []" and "t \<le> now" and "now - 365 * 24 * 60 * 60 * 1000 \<le> t"
    and "case req_dosageTaken req of None \<Rightarrow> True | Some x \<Rightarrow> length x \<le> 100"
    and "case req_notes req of None \<Rightarrow> True | Some x \<Rightarrow> length x \<le> 500"
    and "\<not> medicineError faults" and "\<not> duplicateError faults"
  shows "create_log faults db userId now req
           = (DuplicateEntry409 (Some (length (duplicateCheck db userId mid t))), db)
     \<and> create_log_v1 faults db userId now req = (DuplicateEntry409 None, db)"
proof -
  note d = duplicateCheck_member [OF assms(1,2,3,7)]
  note v = validateMedicineLog_ok [OF assms(8-12)]
  show ?thesis
    using afterValidation_duplicate [OF d assms(4,13,14)] v assms(5,6)
    by (simp add: create_log_def create_log_v1_def)
qed

theorem create_log_duplicate_witness:
  "logAt ''m1'' 1700000000000 \<in> set (medicine_logs sampleStore)
   \<and> selectMedicine sampleStore ''m1'' ''u1'' = Some aspirin
   \<and> \<bar>1700000300000 - taken_at (logAt ''m1'' 1700000000000)\<bar> \<le> 5 * 60 * 1000
   \<and> (1700000300000::int) \<le> 1700000400000
   \<and> \<not> medicineError noFaults \<and> \<not> duplicateError noFaults
   \<and> create_log noFaults sampleStore ''u1'' 1700000400000 (sampleRequest 1700000300000)
       = (DuplicateEntry409 (Some 1), sampleStore)
   \<and> create_log_v1 noFaults sampleStore ''u1'' 1700000400000 (sampleRequest 1700000300000)
       = (DuplicateEntry409 None, sampleStore)"
  using create_log_duplicate [of "logAt ''m1'' 1700000000000" sampleStore "''u1''" "''m1''"
      aspirin "sampleRequest 1700000300000" 1700000300000 1700000400000 noFaults]
  by (simp add: sampleStore_def sampleRequest_def logAt_def aspirin_def noFaults_def
        selectMedicine_def duplicateCheck_def)

section \<open>Properties of the adherence analytics\<close>

lemma update_member: "p \<in> set (AList.update k v al) \<Longrightarrow> p = (k, v) \<or> p \<in> set al"
  by (induction al) (auto split: if_splits)

lemma addLog_ids:
  assumes "\<forall>p \<in> set (fst acc). s_medicineId (snd p) \<in> A"
  shows "\<forall>p \<in> set (fst (addLog acc r)).
           s_medicineId (snd p) \<in> insert (medicine_id (fst r)) A"
proof
  fix p
  assume "p \<in> set (fst (addLog acc r))"
  then show "s_medicineId (snd p) \<in> insert (medicine_id (fst r)) A"
    using assms
    by (auto simp add: addLog_def Let_def dest!: update_member map_of_SomeD
          split: option.splits)
qed

lemma foldl_addLog_ids:
  assumes "\<forall>p \<in> set (fst acc). s_medicineId (snd p) \<in> A"
  shows "\<forall>p \<in> set (fst (foldl addLog acc logs)).
           s_medicineId (snd p) \<in> A \<union> (\<lambda>r. medicine_id (fst r)) ` set logs"
  using assms
proof (induction logs arbitrary: acc A)
  case Nil
  then show ?case by simp
next
  case (Cons r logs)
  have "\<forall>p \<in> set (fst (foldl addLog (addLog acc r) logs)).
           s_medicineId (snd p)
             \<in> insert (medicine_id (fst r)) A \<union> (\<lambda>r. medicine_id (fst r)) ` set logs"
    by (rule Cons.IH [OF addLog_ids [OF Cons.prems]])
  then show ?case by simp
qed

lemma entry_from_log:
  assumes "e \<in> set (analytics (adherenceReport logs start end'))"
  shows "medicineId e \<in> (\<lambda>r. medicine_id (fst r)) ` set logs"
proof -
  from assms obtain p where p: "p \<in> set (fst (collectStats logs))"
    and e: "e = adherenceEntry start end' (snd p)"
    by (auto simp add: adherenceReport_def Let_def)
  have "s_medicineId (snd p) \<in> {} \<union> (\<lambda>r. medicine_id (fst r)) ` set logs"
    using foldl_addLog_ids [of "([], [])" "{}" logs] p by (simp add: collectStats_def)
  then show ?thesis
    using e by (simp add: adherenceEntry_def Let_def)
qed

lemma set_selectLogs:
  "set (selectLogs rows userId mid start end')
     \<subseteq> set (filter (\<lambda>r. user_id (fst r) = userId
                          \<and> start \<le> taken_at (fst r) \<and> taken_at (fst r) \<le> end') rows)"
  by (auto simp add: selectLogs_def)

text \<open>
  Claim C6: the report is driven by the logs. A medicine \<open>M\<close> for which the user has no
  log with \<^verbatim>\<open>taken_at\<close> in the window is the \<^verbatim>\<open>medicineId\<close> of no entry of
  \<^verbatim>\<open>analytics\<close>; and for an empty list of logs, whatever the window, \<^verbatim>\<open>analytics\<close>
  and \<^verbatim>\<open>dailyStats\<close> are both empty.
\<close>

theorem adherence_log_driven:
  "(M \<notin> (\<lambda>r. medicine_id (fst r)) `
          set (filter (\<lambda>r. user_id (fst r) = userId
                          \<and> start \<le> taken_at (fst r) \<and> taken_at (fst r) \<le> end') rows)
      \<longrightarrow> M \<notin> medicineId `
            set (analytics (adherenceReport (selectLogs rows userId mid start end')
                   start end')))
   \<and> adherenceReport [] start end' = \<lparr> analytics = [], dailyStats = [] \<rparr>
   \<and> adherence_route False [] userId mid start end'
       = AdherenceOk200 \<lparr> analytics = [], dailyStats = [] \<rparr>"
proof -
  have empty: "adherenceReport [] start end' = \<lparr> analytics = [], dailyStats = [] \<rparr>"
    by (simp add: adherenceReport_def collectStats_def)
  have "selectLogs [] userId mid start end' = []"
    by (simp add: selectLogs_def)
  then have route: "adherence_route False [] userId mid start end'
       = AdherenceOk200 \<lparr> analytics = [], dailyStats = [] \<rparr>"
    by (simp add: adherence_route_def empty)
  have "medicineId ` set (analytics (adherenceReport (selectLogs rows userId mid start end')
            start end'))
        \<subseteq> (\<lambda>r. medicine_id (fst r)) ` set (selectLogs rows userId mid start end')"
    using entry_from_log by blast
  also have "\<dots> \<subseteq> (\<lambda>r. medicine_id (fst r)) `
          set (filter (\<lambda>r. user_id (fst r) = userId
                          \<and> start \<le> taken_at (fst r) \<and> taken_at (fst r) \<le> end') rows)"
    using set_selectLogs by (rule image_mono)
  finally show ?thesis
    using empty route by blast
qed

theorem adherence_log_driven_witness:
  "''m2'' \<notin> (\<lambda>r. medicine_id (fst r)) `
          set (filter (\<lambda>r. user_id (fst r) = ''u1''
                          \<and> 0 \<le> taken_at (fst r) \<and> taken_at (fst r) \<le> 604800000)
                 [(logAt ''m1'' 86400000, aspirin), (logAt ''m2'' 900000000, iron)])
   \<and> ''m2'' \<notin> medicineId `
        set (analytics (adherenceReport
               (selectLogs [(logAt ''m1'' 86400000, aspirin), (logAt ''m2'' 900000000, iron)]
                  ''u1'' None 0 604800000) 0 604800000))
   \<and> map medicineId (analytics (adherenceReport
               (selectLogs [(logAt ''m1'' 86400000, aspirin), (logAt ''m2'' 900000000, iron)]
                  ''u1'' None 0 604800000) 0 604800000)) = [''m1'']"
  using adherence_log_driven [of "''m2''" "''u1''" 0 604800000
      "[(logAt ''m1'' 86400000, aspirin), (logAt ''m2'' 900000000, iron)]" None]
  by (simp add: logAt_def aspirin_def iron_def selectLogs_def adherenceReport_def
        collectStats_def addLog_def dayKey_def adherenceEntry_def Let_def)

lemma logsFor_snoc:
  "logsFor k (ls @ [r]) = (if medicine_id (fst r) = k then logsFor k ls @ [r] else logsFor k ls)"
  by (simp add: logsFor_def)

lemma logsFor_empty_iff: "logsFor k ls = [] \<longleftrightarrow> k \<notin> (\<lambda>r. medicine_id (fst r)) ` set ls"
  by (auto simp add: logsFor_def filter_empty_conv)

lemma statOf_other:
  "medicine_id (fst r) \<noteq> k \<Longrightarrow> statOf k (ls @ [r]) = statOf k ls"
  by (simp add: statOf_def logsFor_snoc)

lemma statOf_first:
  assumes "medicine_id (fst r) \<notin> (\<lambda>r. medicine_id (fst r)) ` set ls"
  shows "statOf (medicine_id (fst r)) (ls @ [r])
           = \<lparr> s_medicineId = medicine_id (fst r), s_medicineName = name_col (snd r),
               s_scheduleType = schedule_type (snd r),
               s_intervalMinutes = interval_minutes (snd r),
               s_totalTaken = 1, s_daysActive = [dayKey (taken_at (fst r))] \<rparr>"
proof -
  have "logsFor (medicine_id (fst r)) ls = []"
    using assms by (simp add: logsFor_empty_iff)
  then show ?thesis
    by (simp add: statOf_def logsFor_snoc addDay_def)
qed

lemma statOf_next:
  assumes "medicine_id (fst r) \<in> (\<lambda>r. medicine_id (fst r)) ` set ls"
  shows "statOf (medicine_id (fst r)) (ls @ [r])
           = (statOf (medicine_id (fst r)) ls)
               \<lparr> s_totalTaken := s_totalTaken (statOf (medicine_id (fst r)) ls) + 1,
                 s_daysActive :=
                   (if dayKey (taken_at (fst r))
                         \<in> set (s_daysActive (statOf (medicine_id (fst r)) ls))
                    then s_daysActive (statOf (medicine_id (fst r)) ls)
                    else s_daysActive (statOf (medicine_id (fst r)) ls)
                           @ [dayKey (taken_at (fst r))]) \<rparr>"
proof -
  have "logsFor (medicine_id (fst r)) ls \<noteq> []"
    using assms by (simp add: logsFor_empty_iff)
  then show ?thesis
    by (simp add: statOf_def logsFor_snoc addDay_def Let_def)
qed

text \<open>The invariant of the loop: after the logs \<open>ls\<close>, the keys of medicineStats are
  the medicines of \<open>ls\<close>, each once, and each value is the stat of its medicine.\<close>

lemma addLog_statOf:
  assumes "\<forall>k. map_of (fst acc) k
              = (if k \<in> (\<lambda>r. medicine_id (fst r)) ` set ls then Some (statOf k ls) else None)"
  shows "\<forall>k. map_of (fst (addLog acc r)) k
              = (if k \<in> (\<lambda>r. medicine_id (fst r)) ` set (ls @ [r])
                 then Some (statOf k (ls @ [r])) else None)"
proof
  fix k
  show "map_of (fst (addLog acc r)) k
              = (if k \<in> (\<lambda>r. medicine_id (fst r)) ` set (ls @ [r])
                 then Some (statOf k (ls @ [r])) else None)"
  proof (cases "k = medicine_id (fst r)")
    case False
    then show ?thesis
      using assms by (simp add: addLog_def Let_def update_conv' statOf_other)
  next
    case True
    show ?thesis
    proof (cases "medicine_id (fst r) \<in> (\<lambda>r. medicine_id (fst r)) ` set ls")
      case False
      then have "map_of (fst acc) (medicine_id (fst r)) = None"
        using assms by simp
      then show ?thesis
        using True False by (simp add: addLog_def Let_def update_conv' statOf_first)
    next
      case old: True
      then have "map_of (fst acc) (medicine_id (fst r)) = Some (statOf (medicine_id (fst r)) ls)"
        using assms by simp
      then show ?thesis
        using True by (simp add: addLog_def Let_def update_conv' statOf_next [OF old])
    qed
  qed
qed

lemma addLog_distinct:
  "distinct (map fst (fst acc)) \<Longrightarrow> distinct (map fst (fst (addLog acc r)))"
  by (simp add: addLog_def Let_def distinct_update)

lemma foldl_addLog_statOf:
  assumes "distinct (map fst (fst acc))"
    and "\<forall>k. map_of (fst acc) k
              = (if k \<in> (\<lambda>r. medicine_id (fst r)) ` set ls then Some (statOf k ls) else None)"
  shows "distinct (map fst (fst (foldl addLog acc logs)))
     \<and> (\<forall>k. map_of (fst (foldl addLog acc logs)) k
              = (if k \<in> (\<lambda>r. medicine_id (fst r)) ` set (ls @ logs)
                 then Some (statOf k (ls @ logs)) else None))"
  using assms
proof (induction logs arbitrary: acc ls)
  case Nil
  then show ?case by simp
next
  case (Cons r logs)
  have "distinct (map fst (fst (foldl addLog (addLog acc r) logs)))
     \<and> (\<forall>k. map_of (fst (foldl addLog (addLog acc r) logs)) k
              = (if k \<in> (\<lambda>r. medicine_id (fst r)) ` set ((ls @ [r]) @ logs)
                 then Some (statOf k ((ls @ [r]) @ logs)) else None))"
    by (rule Cons.IH [OF addLog_distinct [OF Cons.prems(1)] addLog_statOf [OF Cons.prems(2)]])
  then show ?case by simp
qed

lemma collectStats_statOf:
  "distinct (map fst (fst (collectStats logs)))"
  "p \<in> set (fst (collectStats logs)) \<Longrightarrow>
     fst p \<in> (\<lambda>r. medicine_id (fst r)) ` set logs \<and> snd p = statOf (fst p) logs"
  "k \<in> (\<lambda>r. medicine_id (fst r)) ` set logs \<Longrightarrow> (k, statOf k logs) \<in> set (fst (collectStats logs))"
proof -
  have inv: "distinct (map fst (fst (collectStats logs)))
     \<and> (\<forall>k. map_of (fst (collectStats logs)) k
              = (if k \<in> (\<lambda>r. medicine_id (fst r)) ` set ([] @ logs)
                 then Some (statOf k ([] @ logs)) else None))"
    unfolding collectStats_def by (rule foldl_addLog_statOf) simp_all
  then show d: "distinct (map fst (fst (collectStats logs)))" by simp
  show "fst p \<in> (\<lambda>r. medicine_id (fst r)) ` set logs \<and> snd p = statOf (fst p) logs"
    if "p \<in> set (fst (collectStats logs))"
  proof -
    have "map_of (fst (collectStats logs)) (fst p) = Some (snd p)"
      using that d by simp
    then show ?thesis
      using inv by (auto split: if_splits)
  qed
  show "(k, statOf k logs) \<in> set (fst (collectStats logs))"
    if "k \<in> (\<lambda>r. medicine_id (fst r)) ` set logs"
  proof -
    have "map_of (fst (collectStats logs)) k = Some (statOf k logs)"
      using that inv by simp
    then show ?thesis
      by (rule map_of_SomeD)
  qed
qed

lemma fl_nonneg: "0 \<le> x \<Longrightarrow> 0 \<le> fl x"
proof -
  assume x: "0 \<le> x"
  have r: "0 \<le> roundEven q" if "0 \<le> q" for q
    using that by (auto simp add: roundEven_def Let_def)
  show ?thesis
  proof (cases "x = 0")
    case True
    then show ?thesis by (simp add: fl_def)
  next
    case False
    with x have "0 < x" by simp
    then show ?thesis
      by (simp add: fl_def Let_def r)
  qed
qed

lemma mathRound_int: "mathRound (real_of_int n) = n"
  unfolding mathRound_def by linarith

lemma toFixed1_rounds:
  "(\<exists>k::int. toFixed1 x = real_of_int k / 10) \<and> \<bar>toFixed1 x - x\<bar> \<le> 1 / 20"
proof (cases "x < 0")
  case True
  have a: "toFixed1 x = real_of_int (- \<lfloor>(- x) * 10 + 1 / 2\<rfloor>) / 10"
    using True by (simp add: toFixed1_def)
  have "\<bar>real_of_int \<lfloor>(- x) * 10 + 1 / 2\<rfloor> - (- x) * 10\<bar> \<le> 1 / 2"
    by linarith
  then have "\<bar>toFixed1 x - x\<bar> \<le> 1 / 20"
    using True by (simp add: toFixed1_def abs_if split: if_splits)
  then show ?thesis
    using a by blast
next
  case False
  have a: "toFixed1 x = real_of_int \<lfloor>x * 10 + 1 / 2\<rfloor> / 10"
    using False by (simp add: toFixed1_def)
  have "\<bar>real_of_int \<lfloor>x * 10 + 1 / 2\<rfloor> - x * 10\<bar> \<le> 1 / 2"
    by linarith
  then have "\<bar>toFixed1 x - x\<bar> \<le> 1 / 20"
    using False by (simp add: toFixed1_def abs_if split: if_splits)
  then show ?thesis
    using a by blast
qed

lemma expectation_rate:
  "snd (expectation st td start end') =
     (if fst (expectation st td start end') > 0
      then fl (fl (real (s_totalTaken st) / real_of_int (fst (expectation st td start end')))
               * 100)
      else 0)"
  by (simp add: expectation_def Let_def)

lemma adherenceEntry_rate:
  "adherenceRate (adherenceEntry start end' st) =
     (if expectedDoses (adherenceEntry start end' st) > 0
      then toFixed1 (max 0 (min 100
             (fl (fl (real (totalTaken (adherenceEntry start end' st))
                      / real_of_int (expectedDoses (adherenceEntry start end' st))) * 100))))
      else 0)"
proof -
  let ?ex = "expectation st \<lceil>fl (real_of_int (end' - start) / (24 * 60 * 60 * 1000))\<rceil>
               start end'"
  let ?e = "adherenceEntry start end' st"
  have ed: "expectedDoses ?e = fst ?ex"
    by (simp add: adherenceEntry_def Let_def mathRound_int)
  have tt: "totalTaken ?e = s_totalTaken st"
    by (simp add: adherenceEntry_def Let_def)
  have ar: "adherenceRate ?e = toFixed1 (min 100 (snd ?ex))"
    by (simp add: adherenceEntry_def Let_def)
  show ?thesis
  proof (cases "fst ?ex > 0")
    case True
    then have s: "snd ?ex = fl (fl (real (s_totalTaken st) / real_of_int (fst ?ex)) * 100)"
      using expectation_rate [of st _ start end'] by simp
    have "0 \<le> fl (real (s_totalTaken st) / real_of_int (fst ?ex))"
      using True by (intro fl_nonneg) simp
    then have "0 \<le> snd ?ex"
      unfolding s by (intro fl_nonneg) simp
    then show ?thesis
      using True ed tt ar s by (simp add: max_def min_def)
  next
    case False
    then have "snd ?ex = 0"
      using expectation_rate [of st _ start end'] by simp
    then show ?thesis
      using False ed ar by (simp add: toFixed1_def)
  qed
qed

lemma adherenceEntry_expected:
  "totalDays (adherenceEntry start end' st)
     = \<lceil>fl (real_of_int (end' - start) / (24 * 60 * 60 * 1000))\<rceil>"
  "scheduleType (adherenceEntry start end' st) = ''interval''
     \<and> intervalMinutes (adherenceEntry start end' st) = Some m \<and> m \<noteq> 0 \<Longrightarrow>
   expectedDoses (adherenceEntry start end' st)
     = \<lfloor>fl (fl (real_of_int (end' - start) / (1000 * 60)) / real_of_int m)\<rfloor>"
  "scheduleType (adherenceEntry start end' st) = ''meal_based'' \<Longrightarrow>
   expectedDoses (adherenceEntry start end' st)
     = totalDays (adherenceEntry start end' st) * 3"
  by (simp_all add: adherenceEntry_def Let_def mathRound_int expectation_def populated_def)

lemma adherenceEntry_statOf:
  "medicineId (adherenceEntry start end' (statOf k logs)) = k"
  "totalTaken (adherenceEntry start end' (statOf k logs)) = length (logsFor k logs)"
  "scheduleType (adherenceEntry start end' (statOf k logs))
     = schedule_type (snd (hd (logsFor k logs)))"
  "intervalMinutes (adherenceEntry start end' (statOf k logs))
     = interval_minutes (snd (hd (logsFor k logs)))"
  by (simp_all add: adherenceEntry_def statOf_def Let_def)

lemma foldl_addDay:
  "distinct ds \<Longrightarrow>
   distinct (foldl addDay ds rs)
     \<and> set (foldl addDay ds rs) = set ds \<union> (\<lambda>r. dayKey (taken_at (fst r))) ` set rs"
  by (induction rs arbitrary: ds) (auto simp add: addDay_def)

lemma adherenceEntry_statOf_more:
  "medicineName (adherenceEntry start end' (statOf k logs))
     = name_col (snd (hd (logsFor k logs)))"
  "daysActive (adherenceEntry start end' (statOf k logs))
     = card ((\<lambda>r. dayKey (taken_at (fst r))) ` set (logsFor k logs))"
proof -
  show "medicineName (adherenceEntry start end' (statOf k logs))
     = name_col (snd (hd (logsFor k logs)))"
    by (simp add: adherenceEntry_def statOf_def Let_def)
  have "distinct (foldl addDay [] (logsFor k logs))
     \<and> set (foldl addDay [] (logsFor k logs))
         = set [] \<union> (\<lambda>r. dayKey (taken_at (fst r))) ` set (logsFor k logs)"
    by (rule foldl_addDay) simp
  then have "length (foldl addDay [] (logsFor k logs))
     = card ((\<lambda>r. dayKey (taken_at (fst r))) ` set (logsFor k logs))"
    using distinct_card [of "foldl addDay [] (logsFor k logs)"] by simp
  then show "daysActive (adherenceEntry start end' (statOf k logs))
     = card ((\<lambda>r. dayKey (taken_at (fst r))) ` set (logsFor k logs))"
    by (simp add: adherenceEntry_def statOf_def Let_def)
qed

lemma adherenceEntry_other:
  "\<not> (scheduleType (adherenceEntry start end' st) = ''interval''
        \<and> populated (intervalMinutes (adherenceEntry start end' st)))
     \<and> scheduleType (adherenceEntry start end' st) \<noteq> ''meal_based'' \<Longrightarrow>
   expectedDoses (adherenceEntry start end' st) = 0"
  by (auto simp add: adherenceEntry_def Let_def mathRound_int expectation_def)

lemma analytics_ids:
  "distinct (map medicineId (analytics (adherenceReport logs start end')))"
  "medicineId ` set (analytics (adherenceReport logs start end'))
     = (\<lambda>r. medicine_id (fst r)) ` set logs"
proof -
  have m: "map medicineId (analytics (adherenceReport logs start end'))
             = map fst (fst (collectStats logs))"
    using collectStats_statOf(2) [of _ logs]
    by (auto simp add: adherenceReport_def Let_def adherenceEntry_statOf(1))
  show "distinct (map medicineId (analytics (adherenceReport logs start end')))"
    unfolding m by (rule collectStats_statOf(1))
  have "set (map medicineId (analytics (adherenceReport logs start end')))
          = (\<lambda>r. medicine_id (fst r)) ` set logs"
    unfolding m using collectStats_statOf(2,3) [of _ logs] by force
  then show "medicineId ` set (analytics (adherenceReport logs start end'))
     = (\<lambda>r. medicine_id (fst r)) ` set logs"
    by simp
qed

text \<open>
  Claim C2: every entry \<open>e\<close> of the adherence report over the window from \<open>start\<close> to
  \<open>end'\<close> belongs to a medicine with logs; its \<^verbatim>\<open>totalTaken\<close> is the number of the
  logs of that medicine and its schedule is the one of the medicine. Its
  \<^verbatim>\<open>totalDays\<close> is the number of days of the window rounded up; for an interval
  medicine with \<^verbatim>\<open>intervalMinutes\<close> \<open>m\<close>, \<^verbatim>\<open>expectedDoses\<close> is the number of
  minutes of the window divided by \<open>m\<close>, rounded down; for a meal-based medicine it is
  three times \<^verbatim>\<open>totalDays\<close>; and \<^verbatim>\<open>adherenceRate\<close> is
  \<^verbatim>\<open>totalTaken / expectedDoses * 100\<close> clamped to the range from 0 to 100 and rounded to
  one decimal (a multiple of 1/10 at most 1/20 away) when \<^verbatim>\<open>expectedDoses\<close> is
  positive, and 0 otherwise. The divisions and the product are the ones of the
  handler, on doubles. Moreover the medicines of the entries are the medicines of the
  logs, each once; the name of the entry is the one of the medicine, its
  \<^verbatim>\<open>daysActive\<close> is the number of days that have a log of the medicine, and
  \<^verbatim>\<open>expectedDoses\<close> is 0 for a medicine that is neither an interval medicine with
  \<^verbatim>\<open>intervalMinutes\<close> nor a meal-based one.
\<close>

theorem adherence_expected_doses:
  assumes "e \<in> set (analytics (adherenceReport logs start end'))"
  shows "logsFor (medicineId e) logs \<noteq> []
     \<and> totalTaken e = length (logsFor (medicineId e) logs)
     \<and> scheduleType e = schedule_type (snd (hd (logsFor (medicineId e) logs)))
     \<and> intervalMinutes e = interval_minutes (snd (hd (logsFor (medicineId e) logs)))
     \<and> totalDays e = \<lceil>fl (real_of_int (end' - start) / (24 * 60 * 60 * 1000))\<rceil>
     \<and> (scheduleType e = ''interval'' \<and> intervalMinutes e = Some m \<and> m \<noteq> 0 \<longrightarrow>
          expectedDoses e
            = \<lfloor>fl (fl (real_of_int (end' - start) / (1000 * 60)) / real_of_int m)\<rfloor>)
     \<and> (scheduleType e = ''meal_based'' \<longrightarrow> expectedDoses e = totalDays e * 3)
     \<and> adherenceRate e =
          (if expectedDoses e > 0
           then toFixed1 (max 0 (min 100
                  (fl (fl (real (totalTaken e) / real_of_int (expectedDoses e)) * 100))))
           else 0)
     \<and> (\<exists>k::int. adherenceRate e = real_of_int k / 10)
     \<and> (expectedDoses e > 0 \<longrightarrow>
          \<bar>adherenceRate e
             - max 0 (min 100
                 (fl (fl (real (totalTaken e) / real_of_int (expectedDoses e)) * 100)))\<bar>
            \<le> 1 / 20)
     \<and> distinct (map medicineId (analytics (adherenceReport logs start end')))
     \<and> medicineId ` set (analytics (adherenceReport logs start end'))
         = (\<lambda>r. medicine_id (fst r)) ` set logs
     \<and> medicineName e = name_col (snd (hd (logsFor (medicineId e) logs)))
     \<and> daysActive e
         = card ((\<lambda>r. dayKey (taken_at (fst r))) ` set (logsFor (medicineId e) logs))
     \<and> (\<not> (scheduleType e = ''interval'' \<and> populated (intervalMinutes e))
          \<and> scheduleType e \<noteq> ''meal_based'' \<longrightarrow> expectedDoses e = 0)"
proof -
  from assms obtain p where p: "p \<in> set (fst (collectStats logs))"
    and e0: "e = adherenceEntry start end' (snd p)"
    by (auto simp add: adherenceReport_def Let_def)
  from collectStats_statOf(2) [OF p]
  have k: "fst p \<in> (\<lambda>r. medicine_id (fst r)) ` set logs" and sp: "snd p = statOf (fst p) logs"
    by simp_all
  have e: "e = adherenceEntry start end' (statOf (fst p) logs)"
    using e0 sp by simp
  have mid: "medicineId e = fst p"
    unfolding e by (rule adherenceEntry_statOf)
  have ne: "logsFor (medicineId e) logs \<noteq> []"
    using k by (simp add: mid logsFor_empty_iff)
  have ties: "totalTaken e = length (logsFor (medicineId e) logs)"
    "scheduleType e = schedule_type (snd (hd (logsFor (medicineId e) logs)))"
    "intervalMinutes e = interval_minutes (snd (hd (logsFor (medicineId e) logs)))"
    unfolding mid unfolding e by (rule adherenceEntry_statOf)+
  have rate: "adherenceRate e =
          (if expectedDoses e > 0
           then toFixed1 (max 0 (min 100
                  (fl (fl (real (totalTaken e) / real_of_int (expectedDoses e)) * 100))))
           else 0)"
    unfolding e by (rule adherenceEntry_rate)
  have tenth: "\<exists>k::int. adherenceRate e = real_of_int k / 10"
  proof (cases "expectedDoses e > 0")
    case True
    then show ?thesis
      using rate toFixed1_rounds by simp
  next
    case False
    then have "adherenceRate e = real_of_int 0 / 10"
      using rate by simp
    then show ?thesis ..
  qed
  have near: "expectedDoses e > 0 \<longrightarrow>
          \<bar>adherenceRate e
             - max 0 (min 100
                 (fl (fl (real (totalTaken e) / real_of_int (expectedDoses e)) * 100)))\<bar>
            \<le> 1 / 20"
    using rate toFixed1_rounds by simp
  have ex: "totalDays e = \<lceil>fl (real_of_int (end' - start) / (24 * 60 * 60 * 1000))\<rceil>"
    "scheduleType e = ''interval'' \<and> intervalMinutes e = Some m \<and> m \<noteq> 0 \<longrightarrow>
          expectedDoses e
            = \<lfloor>fl (fl (real_of_int (end' - start) / (1000 * 60)) / real_of_int m)\<rfloor>"
    "scheduleType e = ''meal_based'' \<longrightarrow> expectedDoses e = totalDays e * 3"
    using adherenceEntry_expected(1) [of start end' "statOf (fst p) logs"]
      adherenceEntry_expected(2) [of start end' "statOf (fst p) logs" m]
      adherenceEntry_expected(3) [of start end' "statOf (fst p) logs"]
    unfolding e by blast+
  have more: "medicineName e = name_col (snd (hd (logsFor (medicineId e) logs)))"
    "daysActive e
       = card ((\<lambda>r. dayKey (taken_at (fst r))) ` set (logsFor (medicineId e) logs))"
    unfolding mid unfolding e by (rule adherenceEntry_statOf_more)+
  have other: "\<not> (scheduleType e = ''interval'' \<and> populated (intervalMinutes e))
          \<and> scheduleType e \<noteq> ''meal_based'' \<longrightarrow> expectedDoses e = 0"
    using adherenceEntry_other [of start end' "statOf (fst p) logs"]
    unfolding e by blast
  show ?thesis
    using ne ties ex rate tenth near analytics_ids [of logs start end'] more other by blast
qed

text \<open>The report of two logs in a window of seven days, one of a medicine taken once a
  day and one of a medicine taken with meals.\<close>

lemma sample_analytics:
  "analytics (adherenceReport [(logAt ''m1'' 86400000, aspirin), (logAt ''m2'' 90000000, iron)]
       0 604800000)
     = [\<lparr> medicineId = ''m1'', medicineName = ''Aspirin'', scheduleType = ''interval'',
           intervalMinutes = Some 1440, totalTaken = 1, expectedDoses = 7, daysActive = 1,
           totalDays = 7, adherenceRate = 14.3 \<rparr>,
        \<lparr> medicineId = ''m2'', medicineName = ''Iron'', scheduleType = ''meal_based'',
           intervalMinutes = None, totalTaken = 1, expectedDoses = 21, daysActive = 1,
           totalDays = 7, adherenceRate = 4.8 \<rparr>]"
  apply (simp add: logAt_def aspirin_def iron_def adherenceReport_def collectStats_def
      addLog_def dayKey_def adherenceEntry_def expectation_def populated_def Let_def)
  apply (simp add: fl_eval mathRound_def toFixed1_def Let_def)
  done

theorem adherence_expected_doses_witness:
  "analytics (adherenceReport [(logAt ''m1'' 86400000, aspirin), (logAt ''m2'' 90000000, iron)]
       0 604800000)
     = [\<lparr> medicineId = ''m1'', medicineName = ''Aspirin'', scheduleType = ''interval'',
           intervalMinutes = Some 1440, totalTaken = 1, expectedDoses = 7, daysActive = 1,
           totalDays = 7, adherenceRate = 14.3 \<rparr>,
        \<lparr> medicineId = ''m2'', medicineName = ''Iron'', scheduleType = ''meal_based'',
           intervalMinutes = None, totalTaken = 1, expectedDoses = 21, daysActive = 1,
           totalDays = 7, adherenceRate = 4.8 \<rparr>]
   \<and> logsFor ''m1'' [(logAt ''m1'' 86400000, aspirin), (logAt ''m2'' 90000000, iron)]
       = [(logAt ''m1'' 86400000, aspirin)]
   \<and> logsFor ''m2'' [(logAt ''m1'' 86400000, aspirin), (logAt ''m2'' 90000000, iron)]
       = [(logAt ''m2'' 90000000, iron)]
   \<and> schedule_type aspirin = ''interval'' \<and> interval_minutes aspirin = Some 1440
   \<and> schedule_type iron = ''meal_based''"
  using
    adherence_expected_doses [where e = "\<lparr> medicineId = ''m1'', medicineName = ''Aspirin'',
           scheduleType = ''interval'', intervalMinutes = Some 1440, totalTaken = 1,
           expectedDoses = 7, daysActive = 1, totalDays = 7, adherenceRate = 14.3 \<rparr>"
        and logs = "[(logAt ''m1'' 86400000, aspirin), (logAt ''m2'' 90000000, iron)]"
        and start = 0 and end' = 604800000 and m = 1440]
    adherence_expected_doses [where e = "\<lparr> medicineId = ''m2'', medicineName = ''Iron'',
           scheduleType = ''meal_based'', intervalMinutes = None, totalTaken = 1,
           expectedDoses = 21, daysActive = 1, totalDays = 7, adherenceRate = 4.8 \<rparr>"
        and logs = "[(logAt ''m1'' 86400000, aspirin), (logAt ''m2'' 90000000, iron)]"
        and start = 0 and end' = 604800000 and m = 1440]
  unfolding sample_analytics
  by (simp add: logsFor_def logAt_def aspirin_def iron_def)

text \<open>A medicine taken once a day with 23 logs in a window of 80 days: the quotient
  23 / 80 * 100 is the double 28.749999999999996, and the answer carries 28.7.\<close>

lemma adherenceEntry_23_of_80:
  "adherenceEntry 0 6912000000
     \<lparr> s_medicineId = ''m1'', s_medicineName = ''Aspirin'', s_scheduleType = ''interval'',
       s_intervalMinutes = Some 1440, s_totalTaken = 23, s_daysActive = [] \<rparr>
   = \<lparr> medicineId = ''m1'', medicineName = ''Aspirin'', scheduleType = ''interval'',
       intervalMinutes = Some 1440, totalTaken = 23, expectedDoses = 80, daysActive = 0,
       totalDays = 80, adherenceRate = 28.7 \<rparr>"
  apply (simp add: adherenceEntry_def expectation_def populated_def Let_def)
  apply (simp add: fl_eval mathRound_def toFixed1_def Let_def)
  done

end
